theory Spec2Isabelle
  imports Main "HOL-Library.Word"
begin

section \<open>Values shared by the editor and the contract set\<close>

text \<open>
  Byte strings stand for the opaque values of the packages \<open>crypto\<close> and \<open>types\<close>:
  a \<open>crypto.Hash\<close>, a \<open>types.FileContractID\<close>, a public or secret key, a signed
  transaction. \<open>types.Currency\<close> is an unbounded non-negative integer,
  \<open>types.BlockHeight\<close> an unsigned 64-bit integer.
\<close>

type_synonym bytes = "8 word list"
type_synonym Hash = bytes
type_synonym FileContractID = bytes
type_synonym SiaPublicKey = bytes
type_synonym SecretKey = bytes
type_synonym Transaction = bytes
type_synonym Currency = nat
type_synonym BlockHeight = "64 word"

text \<open>
  A Go \<open>error\<close> value. \<open>ErrorsNew msg\<close> is \<open>errors.New(msg)\<close>;
  \<open>ErrStopResponse\<close> is the sentinel \<open>modules.ErrStopResponse\<close> that
  \<open>runRevisionIteration\<close> compares against with \<open>==\<close>.
\<close>

datatype error = ErrorsNew string | ErrStopResponse

text \<open>
  How a call ends: it returns, it panics (a Go panic or a fatal error of the runtime),
  or it blocks on a mutex that nobody in a sequential run can release.
\<close>

datatype 'a outcome = Returns 'a | Panics string | Blocks

definition obind :: "'a outcome \<Rightarrow> ('a \<Rightarrow> 'b outcome) \<Rightarrow> 'b outcome" where
  "obind m k = (case m of Returns x \<Rightarrow> k x | Panics msg \<Rightarrow> Panics msg | Blocks \<Rightarrow> Blocks)"

text \<open>
  \<open>sync.Mutex\<close>: the flag is \<open>True\<close> while the mutex is held. \<open>Lock\<close> on a held
  mutex does not return; \<open>Unlock\<close> on a free one is the runtime's fatal error.
\<close>

definition mutex_Lock :: "bool \<Rightarrow> bool outcome" where
  "mutex_Lock m = (if m then Blocks else Returns True)"

definition mutex_Unlock :: "bool \<Rightarrow> bool outcome" where
  "mutex_Unlock m = (if m then Returns False else Panics ''sync: unlock of unlocked mutex'')"

section \<open>Contracts\<close>

record SiacoinOutput =
  Value :: Currency
  UnlockHash :: bytes

record FileContractRevision =
  NewWindowEnd :: BlockHeight
  NewValidProofOutputs :: "SiacoinOutput list"
  NewMissedProofOutputs :: "SiacoinOutput list"
  NewFileMerkleRoot :: Hash

text \<open>
  Modelled from the spec: the declaration of \<open>contractHeader\<close> is not in the sources at
  hand. Section 3 of the specification lists what the core reads from a header: the
  latest revision, the remaining renter funds, a secret key for signing and the public
  key of the host. \<open>LastRevision\<close> and \<open>RenterFunds\<close> are the results of the
  methods of these names.
\<close>

record contractHeader =
  LastRevision :: FileContractRevision
  RenterFunds :: Currency
  SecretKey :: SecretKey
  HostPublicKey :: SiaPublicKey

text \<open>
  The backing file of a contract, as far as this development observes it: how many
  writes it has received and how many of them a \<open>Sync\<close> has made durable.
\<close>

record File =
  written :: nat
  flushed :: nat

text \<open>
  \<open>SafeContract\<close>, with the fields the code at hand touches: \<open>header\<close>,
  \<open>merkleRoots\<close>, the file \<open>f\<close> (here \<open>sc_f\<close>), the journal handle \<open>wal\<close>
  (here \<open>sc_wal\<close>, \<open>None\<close> for \<open>nil\<close>) and the mutex \<open>mu\<close> (here \<open>sc_mu\<close>).
\<close>

record SafeContract =
  header :: contractHeader
  merkleRoots :: "Hash list"
  sc_f :: File
  sc_wal :: "nat option"
  sc_mu :: bool

record ContractMetadata =
  ID :: FileContractID
  md_RenterFunds :: Currency

section \<open>The contract set\<close>

record ContractSet =
  contracts :: "FileContractID \<rightharpoonup> SafeContract"
  cs_wal :: nat
  cs_mu :: bool

text \<open>
  \<open>Acquire\<close>: the map lookup happens under the lock of the set, which is released
  before the lock of the contract is taken.
\<close>

definition Acquire :: "ContractSet \<Rightarrow> FileContractID \<Rightarrow> (SafeContract option \<times> ContractSet) outcome" where
  "Acquire cs cid =
     obind (mutex_Lock (cs_mu cs)) (\<lambda>l1.
     obind (mutex_Unlock l1) (\<lambda>l2.
       (case contracts cs cid of
          None \<Rightarrow> Returns (None, cs\<lparr>cs_mu := l2\<rparr>)
        | Some safeContract \<Rightarrow>
            obind (mutex_Lock (sc_mu safeContract)) (\<lambda>l.
              Returns (Some (safeContract\<lparr>sc_mu := l\<rparr>),
                       cs\<lparr>contracts := (contracts cs)(cid \<mapsto> safeContract\<lparr>sc_mu := l\<rparr>),
                          cs_mu := l2\<rparr>)))))"

text \<open>
  \<open>build.Critical\<close> is not in the sources at hand. Whether it panics or returns after
  reporting is a parameter, the field \<open>critical_panics\<close> below; the message it reports is the
  argument.
\<close>

definition Critical :: "bool \<Rightarrow> string \<Rightarrow> unit outcome" where
  "Critical panics msg =
     (if panics then Panics (''Critical error: '' @ msg) else Returns ())"

text \<open>
  \<open>Return\<close>. When the identifier is absent the lock of the set is released, then
  \<open>build.Critical\<close> is called; should that call return, the code goes on to release
  the lock of the set a second time.
\<close>

definition Return :: "bool \<Rightarrow> ContractSet \<Rightarrow> FileContractID \<Rightarrow> ContractSet outcome" where
  "Return panics cs cid =
     obind (mutex_Lock (cs_mu cs)) (\<lambda>l1.
       (case contracts cs cid of
          None \<Rightarrow>
            obind (mutex_Unlock l1) (\<lambda>l2.
            obind (Critical panics ''no contract with that id'') (\<lambda>_.
            obind (mutex_Unlock l2) (\<lambda>_.
              Panics ''invalid memory address or nil pointer dereference'')))
        | Some safeContract \<Rightarrow>
            obind (mutex_Unlock l1) (\<lambda>l2.
            obind (mutex_Unlock (sc_mu safeContract)) (\<lambda>l.
              Returns (cs\<lparr>contracts := (contracts cs)(cid \<mapsto> safeContract\<lparr>sc_mu := l\<rparr>),
                          cs_mu := l2\<rparr>)))))"

section \<open>What the editor takes from the rest of the repository\<close>

record HostDBEntry =
  NetAddress :: string
  Version :: string
  StoragePrice :: Currency
  UploadBandwidthPrice :: Currency
  Collateral :: Currency
  PublicKey :: SiaPublicKey

text \<open>
  Modelled from the spec: the \<open>hostDB\<close> interface is not in the sources at hand.
  Section 6 of the specification gives it two fire-and-forget counters per host key.
\<close>

record hostDB =
  FailedInteractions :: "SiaPublicKey \<Rightarrow> nat"
  SuccessfulInteractions :: "SiaPublicKey \<Rightarrow> nat"

definition IncrementFailedInteractions :: "hostDB \<Rightarrow> SiaPublicKey \<Rightarrow> hostDB" where
  "IncrementFailedInteractions db pk =
     db\<lparr>FailedInteractions := (FailedInteractions db)(pk := Suc (FailedInteractions db pk))\<rparr>"

definition IncrementSuccessfulInteractions :: "hostDB \<Rightarrow> SiaPublicKey \<Rightarrow> hostDB" where
  "IncrementSuccessfulInteractions db pk =
     db\<lparr>SuccessfulInteractions := (SuccessfulInteractions db)(pk := Suc (SuccessfulInteractions db pk))\<rparr>"

datatype ActionType = ActionInsert | ActionDelete | ActionModify

record RevisionAction =
  Type :: ActionType
  SectorIndex :: "64 word"
  Data :: bytes

datatype Release = Dev | Standard | Testing

text \<open>The deadlines the code sets, by the names the source gives them.\<close>

datatype duration =
    NegotiateSettingsTime
  | NegotiateFileContractRevisionTime
  | NegotiateRecentRevisionTime
  | TwoMinutes
  | Hour

text \<open>
  Everything a session does to the outside world, in the order it does it: each
  call on the connection, the closing of the connection and of \<open>closeChan\<close>.
\<close>

datatype event =
    DialTCP string
  | ExtendDeadline duration
  | WriteRPCReviseContract
  | VerifyRecentRevision
  | StartRevision
  | WriteActions "RevisionAction list"
  | NegotiateRevision FileContractRevision
  | VerifySettings
  | WriteNegotiationStop
  | CloseCloseChan
  | ConnClose

text \<open>
  A recovered record of the journal (\<open>writeaheadlog.Update\<close>), and the two
  payloads the replay decodes from its instructions.
\<close>

record Update =
  Name :: string
  Instructions :: bytes

record updateSetHeader =
  ush_ID :: FileContractID
  ush_Header :: contractHeader

record updateSetRoot =
  usr_ID :: FileContractID
  usr_Root :: Hash
  usr_Index :: int

text \<open>
  The parameters of the contract set: what \<open>contractset.go\<close> calls and the sources
  at hand do not define. The methods of \<open>SafeContract\<close> (\<open>Metadata\<close>,
  \<open>applySetHeader\<close>, \<open>applySetRoot\<close>), \<open>loadSafeContract\<close>, the decoders of the
  two journal records, the two record names, \<open>build.Critical\<close>, and the answers of
  the file system and of \<open>writeaheadlog.New\<close>. A failing call answers with its error.
\<close>

record set_env =
  critical_panics :: bool
  Metadata :: "SafeContract \<Rightarrow> ContractMetadata"
  updateNameSetHeader :: string
  updateNameSetRoot :: string
  Unmarshal_updateSetHeader :: "bytes \<Rightarrow> error + updateSetHeader"
  Unmarshal_updateSetRoot :: "bytes \<Rightarrow> error + updateSetRoot"
  applySetHeader :: "SafeContract \<Rightarrow> contractHeader \<Rightarrow> error option \<times> SafeContract"
  applySetRoot :: "SafeContract \<Rightarrow> Hash \<Rightarrow> int \<Rightarrow> error option \<times> SafeContract"
  file_Sync :: "File \<Rightarrow> error option \<times> File"
  IsPathSeparator :: "char \<Rightarrow> bool"
  os_Open :: "string \<Rightarrow> error option"
  dir_Stat :: "string \<Rightarrow> error + bool"
  filepath_Join :: "string \<Rightarrow> string \<Rightarrow> string"
  writeaheadlog_New :: "string \<Rightarrow> error + (Update list \<times> nat)"
  Readdirnames :: "string \<Rightarrow> error + string list"
  loadSafeContract :: "string \<Rightarrow> error + SafeContract"

text \<open>
  The parameters of the editor, on top of those of the contract set. \<open>'f\<close> is
  \<open>float64\<close> with the three operations the code uses: \<open>float64_const m k\<close> is the
  constant \<open>m / 10^k\<close> as a \<open>float64\<close>, and \<open>MulFloat\<close> is the method of
  \<open>types.Currency\<close>. \<open>nodeSum\<close> is the hash of two children in a Merkle tree
  of package \<open>crypto\<close>. \<open>sectorHeight\<close> is the package variable of that name.
  The network calls answer from what has happened on the session so far.
\<close>

record 'f env = set_env +
  release :: Release
  VersionCmp :: "string \<Rightarrow> string \<Rightarrow> int"
  SectorSize :: "64 word"
  sectorHeight :: "64 word"
  float64_const :: "nat \<Rightarrow> nat \<Rightarrow> 'f"
  float64_add :: "'f \<Rightarrow> 'f \<Rightarrow> 'f"
  float64_sub :: "'f \<Rightarrow> 'f \<Rightarrow> 'f"
  MulFloat :: "Currency \<Rightarrow> 'f \<Rightarrow> Currency"
  MerkleRoot :: "bytes \<Rightarrow> Hash"
  nodeSum :: "Hash \<Rightarrow> Hash \<Rightarrow> Hash"
  newUploadRevision :: "FileContractRevision \<Rightarrow> Hash \<Rightarrow> Currency \<Rightarrow> Currency \<Rightarrow> FileContractRevision"
  RecordUpload :: "SafeContract \<Rightarrow> Transaction \<Rightarrow> Hash \<Rightarrow> Currency \<Rightarrow> Currency \<Rightarrow> error option \<times> SafeContract"
  IsRevisionMismatch :: "error \<Rightarrow> bool"
  error_Error :: "error \<Rightarrow> string"
  Dial :: "event list \<Rightarrow> string \<Rightarrow> error option"
  WriteObject_RPC :: "event list \<Rightarrow> error option"
  verifyRecentRevision :: "event list \<Rightarrow> contractHeader \<Rightarrow> string \<Rightarrow> error option"
  startRevision :: "event list \<Rightarrow> HostDBEntry \<Rightarrow> error option"
  WriteObject_actions :: "event list \<Rightarrow> RevisionAction list \<Rightarrow> error option"
  negotiateRevision :: "event list \<Rightarrow> FileContractRevision \<Rightarrow> SecretKey \<Rightarrow> Transaction \<times> error option"

text \<open>
  Modelled from the spec: the arithmetic of \<open>types.Currency\<close> is not in the sources
  at hand. The specification multiplies, adds and compares prices as integers.
\<close>

definition NewCurrency64 :: "64 word \<Rightarrow> Currency" where
  "NewCurrency64 x = unat x"

definition Currency_Mul :: "Currency \<Rightarrow> Currency \<Rightarrow> Currency" where
  "Currency_Mul c d = c * d"

definition Currency_Mul64 :: "Currency \<Rightarrow> 64 word \<Rightarrow> Currency" where
  "Currency_Mul64 c x = c * unat x"

definition Currency_Add :: "Currency \<Rightarrow> Currency \<Rightarrow> Currency" where
  "Currency_Add c d = c + d"

definition Currency_Cmp :: "Currency \<Rightarrow> Currency \<Rightarrow> int" where
  "Currency_Cmp c d = (if c < d then - 1 else if c = d then 0 else 1)"

text \<open>Indexing a slice panics out of range.\<close>

definition index :: "'a list \<Rightarrow> nat \<Rightarrow> 'a outcome" where
  "index xs i = (if i < length xs then Returns (xs ! i) else Panics ''index out of range'')"

section \<open>Loading the contract set\<close>

text \<open>
  \<open>filepath.Ext\<close> of the Go library: scanning from the end of the path up to the
  last path separator, the suffix that starts at the last dot, or the empty string.
  \<open>Ext_scan\<close> walks the reversed path; its last argument is the suffix behind the
  position.
\<close>

fun Ext_scan :: "(char \<Rightarrow> bool) \<Rightarrow> string \<Rightarrow> string \<Rightarrow> string" where
  "Ext_scan sep [] suffix = []"
| "Ext_scan sep (c # cs) suffix =
     (if sep c then []
      else if c = CHR ''.'' then c # suffix
      else Ext_scan sep cs (c # suffix))"

definition Ext :: "(char \<Rightarrow> bool) \<Rightarrow> string \<Rightarrow> string" where
  "Ext sep path = Ext_scan sep (rev path) []"

text \<open>
  \<open>applyRecoveredUpdates\<close>: \<open>applyRecoveredUpdate\<close> is the body of its loop, run
  on one record. The contracts of the map are pointers: what a method does to a
  contract is stored back under its key. The result is the error and the map as the
  call leaves it; the loop ends at the first error.
\<close>

definition applyRecoveredUpdate ::
  "'z set_env_scheme \<Rightarrow> (FileContractID \<rightharpoonup> SafeContract) \<Rightarrow> Update \<Rightarrow>
   error option \<times> (FileContractID \<rightharpoonup> SafeContract)" where
  "applyRecoveredUpdate env m update =
     (if Name update = updateNameSetHeader env then
        (case Unmarshal_updateSetHeader env (Instructions update) of
           Inl err \<Rightarrow> (Some err, m)
         | Inr u \<Rightarrow>
             (case m (ush_ID u) of
                None \<Rightarrow> (Some (ErrorsNew ''no such contract''), m)
              | Some c \<Rightarrow>
                  (case applySetHeader env c (ush_Header u) of
                     (Some err, c') \<Rightarrow> (Some err, m(ush_ID u \<mapsto> c'))
                   | (None, c') \<Rightarrow>
                       (case file_Sync env (sc_f c') of
                          (err, f') \<Rightarrow> (err, m(ush_ID u \<mapsto> c'\<lparr>sc_f := f'\<rparr>))))))
      else if Name update = updateNameSetRoot env then
        (case Unmarshal_updateSetRoot env (Instructions update) of
           Inl err \<Rightarrow> (Some err, m)
         | Inr u \<Rightarrow>
             (case m (usr_ID u) of
                None \<Rightarrow> (Some (ErrorsNew ''no such contract''), m)
              | Some c \<Rightarrow>
                  (case applySetRoot env c (usr_Root u) (usr_Index u) of
                     (Some err, c') \<Rightarrow> (Some err, m(usr_ID u \<mapsto> c'))
                   | (None, c') \<Rightarrow>
                       (case file_Sync env (sc_f c') of
                          (err, f') \<Rightarrow> (err, m(usr_ID u \<mapsto> c'\<lparr>sc_f := f'\<rparr>))))))
      else (None, m))"

fun applyRecoveredUpdates ::
  "'z set_env_scheme \<Rightarrow> (FileContractID \<rightharpoonup> SafeContract) \<Rightarrow> Update list \<Rightarrow>
   error option \<times> (FileContractID \<rightharpoonup> SafeContract)" where
  "applyRecoveredUpdates env m [] = (None, m)"
| "applyRecoveredUpdates env m (update # updates) =
     (case applyRecoveredUpdate env m update of
        (Some err, m') \<Rightarrow> (Some err, m')
      | (None, m') \<Rightarrow> applyRecoveredUpdates env m' updates)"

text \<open>The loop of \<open>NewContractSet\<close> over the names of the directory.\<close>

fun load_contracts ::
  "'z set_env_scheme \<Rightarrow> nat \<Rightarrow> string list \<Rightarrow> (FileContractID \<rightharpoonup> SafeContract) \<Rightarrow>
   error + (FileContractID \<rightharpoonup> SafeContract)" where
  "load_contracts env wal [] m = Inr m"
| "load_contracts env wal (filename # dirNames) m =
     (if Ext (IsPathSeparator env) filename \<noteq> ''contract''
      then load_contracts env wal dirNames m
      else
        (case loadSafeContract env filename of
           Inl err \<Rightarrow> Inl err
         | Inr c \<Rightarrow>
             load_contracts env wal dirNames
               (m(ID (Metadata env (c\<lparr>sc_wal := Some wal\<rparr>)) \<mapsto> c\<lparr>sc_wal := Some wal\<rparr>))))"

definition NewContractSet :: "'z set_env_scheme \<Rightarrow> string \<Rightarrow> error + ContractSet" where
  "NewContractSet env dir =
     (case os_Open env dir of
        Some err \<Rightarrow> Inl err
      | None \<Rightarrow>
          (case dir_Stat env dir of
             Inl err \<Rightarrow> Inl err
           | Inr isDir \<Rightarrow>
               if \<not> isDir then Inl (ErrorsNew ''not a directory'')
               else
                 (case writeaheadlog_New env (filepath_Join env dir ''contractset.log'') of
                    Inl err \<Rightarrow> Inl err
                  | Inr (updates, wal) \<Rightarrow>
                      (case Readdirnames env dir of
                         Inl err \<Rightarrow> Inl err
                       | Inr dirNames \<Rightarrow>
                           (case load_contracts env wal dirNames Map.empty of
                              Inl err \<Rightarrow> Inl err
                            | Inr m \<Rightarrow>
                                (case applyRecoveredUpdates env m updates of
                                   (Some err, _) \<Rightarrow> Inl err
                                 | (None, m') \<Rightarrow>
                                     Inr \<lparr>contracts = m', cs_wal = wal, cs_mu = False\<rparr>))))))"

section \<open>The editor\<close>

definition hostPriceLeeway :: "'f env \<Rightarrow> 'f" where
  "hostPriceLeeway env =
     (case release env of
        Dev \<Rightarrow> float64_const env 5 2
      | Standard \<Rightarrow> float64_const env 2 3
      | Testing \<Rightarrow> float64_const env 2 3)"

text \<open>
  The initialiser of \<open>sectorHeight\<close>: the loop counts up while \<open>1 << height\<close>, a
  64-bit value, is below the number of segments of a sector.
\<close>

partial_function (option) sectorHeight_loop :: "64 word \<Rightarrow> 64 word \<Rightarrow> 64 word option" where
  "sectorHeight_loop leaves height =
     (if push_bit (unat height) (1 :: 64 word) < leaves
      then sectorHeight_loop leaves (height + 1)
      else Some height)"

definition sectorHeight_init :: "64 word \<Rightarrow> 64 word \<Rightarrow> 64 word option" where
  "sectorHeight_init sectorSize segmentSize = sectorHeight_loop (sectorSize div segmentSize) 0"

text \<open>
  Modelled from the spec: the cached tree of package \<open>crypto\<close> (\<open>NewCachedTree\<close>,
  \<open>Push\<close>, \<open>Root\<close>) is not in the sources at hand. Section 4.1 of the
  specification asks for the root over an ordered sequence of hashes that one more
  hash extends without rehashing the sequence, by a cached tree bounded in height.
  The tree keeps the roots of the complete subtrees built so far, the latest on
  top, each with its height. \<open>Push\<close> puts the hash on top as a subtree of the
  cached height and joins the two subtrees on top while they have the same height;
  \<open>Root\<close> joins what is left from the top down, and is the empty hash for the
  empty tree.
\<close>

record CachedTree =
  cachedNodeHeight :: nat
  subTrees :: "(nat \<times> Hash) list"

definition NewCachedTree :: "64 word \<Rightarrow> CachedTree" where
  "NewCachedTree h = \<lparr>cachedNodeHeight = unat h, subTrees = []\<rparr>"

fun joinAllSubTrees :: "(Hash \<Rightarrow> Hash \<Rightarrow> Hash) \<Rightarrow> (nat \<times> Hash) list \<Rightarrow> (nat \<times> Hash) list" where
  "joinAllSubTrees node ((h1, s1) # (h2, s2) # rest) =
     (if h1 = h2 then joinAllSubTrees node ((Suc h2, node s2 s1) # rest)
      else (h1, s1) # (h2, s2) # rest)"
| "joinAllSubTrees node st = st"

definition CachedTree_Push :: "(Hash \<Rightarrow> Hash \<Rightarrow> Hash) \<Rightarrow> CachedTree \<Rightarrow> Hash \<Rightarrow> CachedTree" where
  "CachedTree_Push node t h =
     t\<lparr>subTrees := joinAllSubTrees node ((cachedNodeHeight t, h) # subTrees t)\<rparr>"

definition CachedTree_Root :: "(Hash \<Rightarrow> Hash \<Rightarrow> Hash) \<Rightarrow> CachedTree \<Rightarrow> Hash" where
  "CachedTree_Root node t =
     (case subTrees t of
        [] \<Rightarrow> []
      | (h, s) # rest \<Rightarrow> foldl (\<lambda>current (h', s'). node s' current) s rest)"

text \<open>
  The root of section 8 of the specification, "computed by rebuilding the whole
  tree from scratch" over a sequence: \<open>tree_root node k xs\<close> is the root of the
  tree over \<open>xs\<close> with room for \<open>2^k\<close> hashes. A sequence that fits in half the
  room is the tree of that half; otherwise the left subtree holds the first half of
  the room and the right subtree the rest. \<open>rebuilt_root\<close> takes a room that
  holds the sequence.
\<close>

primrec tree_root :: "(Hash \<Rightarrow> Hash \<Rightarrow> Hash) \<Rightarrow> nat \<Rightarrow> Hash list \<Rightarrow> Hash" where
  "tree_root node 0 xs = (case xs of [] \<Rightarrow> [] | x # _ \<Rightarrow> x)"
| "tree_root node (Suc k) xs =
     (if length xs \<le> 2 ^ k then tree_root node k xs
      else node (tree_root node k (take (2 ^ k) xs)) (tree_root node k (drop (2 ^ k) xs)))"

definition rebuilt_root :: "(Hash \<Rightarrow> Hash \<Rightarrow> Hash) \<Rightarrow> Hash list \<Rightarrow> Hash" where
  "rebuilt_root node xs = tree_root node (length xs) xs"

text \<open>
  What a stack of subtrees stands for: \<open>covers node c st xs\<close> when the subtrees of
  \<open>st\<close>, from the bottom up, are the roots of consecutive blocks of \<open>xs\<close>, a
  subtree of height \<open>h\<close> over \<open>2^(h - c)\<close> hashes.
\<close>

inductive covers :: "(Hash \<Rightarrow> Hash \<Rightarrow> Hash) \<Rightarrow> nat \<Rightarrow> (nat \<times> Hash) list \<Rightarrow> Hash list \<Rightarrow> bool"
  for node :: "Hash \<Rightarrow> Hash \<Rightarrow> Hash" and c :: nat where
  covers_Nil: "covers node c [] []"
| covers_Cons: "covers node c st xs \<Longrightarrow> c \<le> h \<Longrightarrow> length b = 2 ^ (h - c) \<Longrightarrow>
     covers node c ((h, tree_root node (h - c) b) # st) (xs @ b)"

inductive_cases covers_ConsE: "covers node c ((h, s) # st) ys"
inductive_cases covers_NilE: "covers node c [] ys"

definition cachedMerkleRoot :: "'f env \<Rightarrow> Hash list \<Rightarrow> Hash" where
  "cachedMerkleRoot env roots =
     CachedTree_Root (nodeSum env)
       (foldl (CachedTree_Push (nodeSum env)) (NewCachedTree (sectorHeight env)) roots)"

text \<open>
  An \<open>Editor\<close>. Its \<open>contractSet\<close> and \<open>hdb\<close> point to objects it shares with its
  caller; they live in the \<open>world\<close>, with the record of what the session has done.
  \<open>conn_closed\<close> and \<open>closeChan_closed\<close> say whether the connection and the
  channel are closed, \<open>once_done\<close> whether the \<open>sync.Once\<close> has fired.
\<close>

record Editor =
  contractID :: FileContractID
  conn_closed :: bool
  closeChan_closed :: bool
  once_done :: bool
  host :: HostDBEntry
  height :: BlockHeight

record world =
  contractSet :: ContractSet
  hdb :: hostDB
  trace :: "event list"

definition emit :: "event \<Rightarrow> world \<Rightarrow> world" where
  "emit e w = w\<lparr>trace := trace w @ [e]\<rparr>"

definition extendDeadline :: "duration \<Rightarrow> world \<Rightarrow> world" where
  "extendDeadline d w = emit (ExtendDeadline d) w"

text \<open>
  \<open>conn.Close()\<close>: the first call closes the connection; a call on a closed
  connection closes nothing and answers with an error.
\<close>

definition conn_Close :: "Editor \<Rightarrow> world \<Rightarrow> error option \<times> Editor \<times> world" where
  "conn_Close he w =
     (if conn_closed he then (Some (ErrorsNew ''use of closed network connection''), he, w)
      else (None, he\<lparr>conn_closed := True\<rparr>, emit ConnClose w))"

text \<open>\<open>close(he.closeChan)\<close> panics on a channel that is closed already.\<close>

definition shutdown :: "Editor \<Rightarrow> world \<Rightarrow> (Editor \<times> world) outcome" where
  "shutdown he w =
     (let w1 = extendDeadline NegotiateSettingsTime w;
          w2 = emit VerifySettings w1;
          w3 = emit WriteNegotiationStop w2
      in if closeChan_closed he then Panics ''close of closed channel''
         else Returns (he\<lparr>closeChan_closed := True\<rparr>, emit CloseCloseChan w3))"

definition Close :: "Editor \<Rightarrow> world \<Rightarrow> (error option \<times> Editor \<times> world) outcome" where
  "Close he w =
     obind (if once_done he then Returns (he, w) else shutdown (he\<lparr>once_done := True\<rparr>) w)
       (\<lambda>(he1, w1). Returns (conn_Close he1 w1))"

text \<open>
  The error of \<open>conn.Close()\<close> on a closed connection, and what \<open>shutdown\<close> does
  in the order it does it: the deadline, the settings exchange, the stop message,
  the closing of \<open>closeChan\<close>.
\<close>

definition closed_conn_error :: error where
  "closed_conn_error = ErrorsNew ''use of closed network connection''"

definition teardown :: "event list" where
  "teardown = [ExtendDeadline NegotiateSettingsTime, VerifySettings, WriteNegotiationStop, CloseCloseChan]"

text \<open>\<open>Close\<close> called \<open>n\<close> times in a row, with the error of every call.\<close>

primrec Close_times :: "nat \<Rightarrow> Editor \<Rightarrow> world \<Rightarrow> (error option list \<times> Editor \<times> world) outcome" where
  "Close_times 0 he w = Returns ([], he, w)"
| "Close_times (Suc n) he w =
     obind (Close he w) (\<lambda>(r, he1, w1).
     obind (Close_times n he1 w1) (\<lambda>(rs, he2, w2).
       Returns (r # rs, he2, w2)))"

text \<open>
  \<open>runRevisionIteration\<close>, first the body, then the deferred function. The result
  is the pair the Go function returns; \<open>[]\<close> is the zero \<open>types.Transaction\<close>.
\<close>

definition runRevisionIteration_body ::
  "'f env \<Rightarrow> Editor \<Rightarrow> RevisionAction list \<Rightarrow> SecretKey \<Rightarrow> FileContractRevision \<Rightarrow>
   Hash list \<Rightarrow> world \<Rightarrow> (Transaction \<times> error option) \<times> Editor \<times> world" where
  "runRevisionIteration_body env he actions secretKey revision newRoots w =
     (let w1 = extendDeadline NegotiateSettingsTime w in
      case startRevision env (trace w1) (host he) of
        Some err \<Rightarrow> (([], Some err), he, emit StartRevision w1)
      | None \<Rightarrow>
          (let w2 = extendDeadline NegotiateFileContractRevisionTime (emit StartRevision w1) in
           case WriteObject_actions env (trace w2) actions of
             Some err \<Rightarrow> (([], Some err), he, emit (WriteActions actions) w2)
           | None \<Rightarrow>
               (let w3 = extendDeadline TwoMinutes (emit (WriteActions actions) w2);
                    (signedTxn, err) = negotiateRevision env (trace w3) revision secretKey;
                    w4 = emit (NegotiateRevision revision) w3
                in if err = Some ErrStopResponse
                   then (let (_, he', w5) = conn_Close he w4 in ((signedTxn, None), he', w5))
                   else if err \<noteq> None then (([], err), he, w4)
                   else ((signedTxn, None), he, w4))))"

definition runRevisionIteration ::
  "'f env \<Rightarrow> Editor \<Rightarrow> RevisionAction list \<Rightarrow> SecretKey \<Rightarrow> FileContractRevision \<Rightarrow>
   Hash list \<Rightarrow> world \<Rightarrow> (Transaction \<times> error option) \<times> Editor \<times> world" where
  "runRevisionIteration env he actions secretKey revision newRoots w =
     (let ((txn, err), he', w') = runRevisionIteration_body env he actions secretKey revision newRoots w;
          w'' = (if err \<noteq> None
                 then w'\<lparr>hdb := IncrementFailedInteractions (hdb w') (PublicKey (host he))\<rparr>
                 else w'\<lparr>hdb := IncrementSuccessfulInteractions (hdb w') (PublicKey (host he))\<rparr>)
      in ((txn, err), he', extendDeadline Hour w''))"

text \<open>The prices of \<open>Upload\<close>, under the names of its local variables.\<close>

definition blockBytes :: "'f env \<Rightarrow> Editor \<Rightarrow> contractHeader \<Rightarrow> Currency" where
  "blockBytes env he contract =
     NewCurrency64 (SectorSize env * (NewWindowEnd (LastRevision contract) - height he))"

definition leeway_applies :: "'f env \<Rightarrow> Editor \<Rightarrow> bool" where
  "leeway_applies env he \<longleftrightarrow> VersionCmp env (Version (host he)) ''1.0.1'' > 0"

definition sectorStoragePrice :: "'f env \<Rightarrow> Editor \<Rightarrow> contractHeader \<Rightarrow> Currency" where
  "sectorStoragePrice env he contract =
     (let p = Currency_Mul (StoragePrice (host he)) (blockBytes env he contract)
      in if leeway_applies env he
         then MulFloat env p (float64_add env (float64_const env 1 0) (hostPriceLeeway env))
         else p)"

definition sectorBandwidthPrice :: "'f env \<Rightarrow> Editor \<Rightarrow> Currency" where
  "sectorBandwidthPrice env he =
     (let p = Currency_Mul64 (UploadBandwidthPrice (host he)) (SectorSize env)
      in if leeway_applies env he
         then MulFloat env p (float64_add env (float64_const env 1 0) (hostPriceLeeway env))
         else p)"

definition sectorCollateral :: "'f env \<Rightarrow> Editor \<Rightarrow> contractHeader \<Rightarrow> Currency" where
  "sectorCollateral env he contract =
     (let p = Currency_Mul (Collateral (host he)) (blockBytes env he contract)
      in if leeway_applies env he
         then MulFloat env p (float64_sub env (float64_const env 1 0) (hostPriceLeeway env))
         else p)"

definition sectorPrice :: "'f env \<Rightarrow> Editor \<Rightarrow> contractHeader \<Rightarrow> Currency" where
  "sectorPrice env he contract =
     Currency_Add (sectorStoragePrice env he contract) (sectorBandwidthPrice env he)"

text \<open>
  \<open>Upload\<close> between \<open>Acquire\<close> and the deferred \<open>Return\<close>, in two parts.
  \<open>Upload_exchange\<close> is the part from the new Merkle root to the call of
  \<open>runRevisionIteration\<close>; \<open>Upload_locked\<close> is the whole, where \<open>sc\<close> is the
  acquired contract and the contract that comes back is what the pointer holds at
  the end. Of a call that panics the model keeps the panic and no state.
\<close>

definition Upload_exchange ::
  "'f env \<Rightarrow> Editor \<Rightarrow> bytes \<Rightarrow> SafeContract \<Rightarrow> world \<Rightarrow>
   (Transaction \<times> error option) \<times> Editor \<times> world" where
  "Upload_exchange env he data sc w =
     (let contract = header sc;
          sectorRoot = MerkleRoot env data;
          newRoots = merkleRoots sc @ [sectorRoot];
          merkleRoot = cachedMerkleRoot env newRoots;
          actions = [\<lparr>Type = ActionInsert,
                      SectorIndex = of_nat (length (merkleRoots sc)),
                      Data = data\<rparr>];
          revision = newUploadRevision env (LastRevision contract) merkleRoot
                       (sectorPrice env he contract) (sectorCollateral env he contract)
      in runRevisionIteration env he actions (SecretKey contract) revision newRoots w)"

definition Upload_locked ::
  "'f env \<Rightarrow> Editor \<Rightarrow> bytes \<Rightarrow> SafeContract \<Rightarrow> world \<Rightarrow>
   ((error + ContractMetadata \<times> Hash) \<times> SafeContract \<times> Editor \<times> world) outcome" where
  "Upload_locked env he data sc w =
     (let contract = header sc in
      if Currency_Cmp (RenterFunds contract) (sectorPrice env he contract) < 0
      then Returns (Inl (ErrorsNew ''contract has insufficient funds to support upload''), sc, he, w)
      else
        obind (index (NewMissedProofOutputs (LastRevision contract)) 1) (\<lambda>out.
          if Currency_Cmp (Value out) (sectorCollateral env he contract) < 0
          then Returns (Inl (ErrorsNew ''contract has insufficient collateral to support upload''), sc, he, w)
          else
            (let ((signedTxn, err), he', w') = Upload_exchange env he data sc w
             in case err of
                  Some e \<Rightarrow> Returns (Inl e, sc, he', w')
                | None \<Rightarrow>
                    (case RecordUpload env sc signedTxn (MerkleRoot env data)
                            (sectorStoragePrice env he contract) (sectorBandwidthPrice env he) of
                       (Some e, sc') \<Rightarrow> Returns (Inl e, sc', he', w')
                     | (None, sc') \<Rightarrow>
                         Returns (Inr (Metadata env sc', MerkleRoot env data), sc', he', w')))))"

definition Upload ::
  "'f env \<Rightarrow> Editor \<Rightarrow> bytes \<Rightarrow> world \<Rightarrow>
   ((error + ContractMetadata \<times> Hash) \<times> Editor \<times> world) outcome" where
  "Upload env he data w =
     obind (Acquire (contractSet w) (contractID he)) (\<lambda>(found, cs1).
       case found of
         None \<Rightarrow>
           Returns (Inl (ErrorsNew ''contract not present in contract set''), he,
                    w\<lparr>contractSet := cs1\<rparr>)
       | Some sc \<Rightarrow>
           obind (Upload_locked env he data sc (w\<lparr>contractSet := cs1\<rparr>)) (\<lambda>(res, sc', he', w').
           obind (Return (critical_panics env)
                    ((contractSet w')\<lparr>contracts := (contracts (contractSet w'))(contractID he \<mapsto> sc')\<rparr>)
                    (contractID he)) (\<lambda>cs2.
             Returns (res, he', w'\<lparr>contractSet := cs2\<rparr>))))"

record RenterContract =
  rc_ID :: FileContractID
  rc_MerkleRoots :: "Hash list"

definition Editor_Delete ::
  "Editor \<Rightarrow> Hash \<Rightarrow> world \<Rightarrow> (error + RenterContract) \<times> Editor \<times> world" where
  "Editor_Delete he root w = (Inl (ErrorsNew ''not supported''), he, w)"

definition Editor_Modify ::
  "Editor \<Rightarrow> Hash \<Rightarrow> Hash \<Rightarrow> 64 word \<Rightarrow> bytes \<Rightarrow> world \<Rightarrow> (error + RenterContract) \<times> Editor \<times> world" where
  "Editor_Modify he oldRoot newRoot offset newData w = (Inl (ErrorsNew ''not supported''), he, w)"

text \<open>
  \<open>NewEditor\<close>. The goroutine that waits for \<open>cancel\<close> or \<open>closeChan\<close> is outside a
  sequential model. The deferred calls run last registered first: the deadline of an
  hour, the reputation update, \<open>Return\<close>.
\<close>

definition NewEditor_dial ::
  "'f env \<Rightarrow> HostDBEntry \<Rightarrow> FileContractID \<Rightarrow> BlockHeight \<Rightarrow> contractHeader \<Rightarrow> world \<Rightarrow>
   (error + Editor) \<times> world" where
  "NewEditor_dial env h cid currentHeight contract w =
     (case Dial env (trace w) (NetAddress h) of
        Some err \<Rightarrow> (Inl err, emit (DialTCP (NetAddress h)) w)
      | None \<Rightarrow>
          (let w1 = extendDeadline NegotiateRecentRevisionTime (emit (DialTCP (NetAddress h)) w) in
           case WriteObject_RPC env (trace w1) of
             Some err \<Rightarrow>
               (Inl (ErrorsNew (''couldn'' @ [CHR 0x27] @ ''t initiate RPC: '' @ error_Error env err)),
                extendDeadline Hour (emit CloseCloseChan (emit ConnClose (emit WriteRPCReviseContract w1))))
           | None \<Rightarrow>
               (let w2 = emit WriteRPCReviseContract w1 in
                case verifyRecentRevision env (trace w2) contract (Version h) of
                  Some err \<Rightarrow>
                    (Inl err,
                     extendDeadline Hour (emit CloseCloseChan (emit ConnClose (emit VerifyRecentRevision w2))))
                | None \<Rightarrow>
                    (Inr \<lparr>contractID = cid, conn_closed = False, closeChan_closed = False,
                          once_done = False, host = h, height = currentHeight\<rparr>,
                     extendDeadline Hour (emit VerifyRecentRevision w2)))))"

definition NewEditor_reputation :: "'f env \<Rightarrow> contractHeader \<Rightarrow> error option \<Rightarrow> hostDB \<Rightarrow> hostDB" where
  "NewEditor_reputation env contract err db =
     (case err of
        Some e \<Rightarrow>
          if \<not> IsRevisionMismatch env e
          then IncrementFailedInteractions db (HostPublicKey contract)
          else db
      | None \<Rightarrow> IncrementSuccessfulInteractions db (HostPublicKey contract))"

definition NewEditor ::
  "'f env \<Rightarrow> HostDBEntry \<Rightarrow> FileContractID \<Rightarrow> BlockHeight \<Rightarrow> world \<Rightarrow>
   ((error + Editor) \<times> world) outcome" where
  "NewEditor env h cid currentHeight w =
     obind (Acquire (contractSet w) cid) (\<lambda>(found, cs1).
       case found of
         None \<Rightarrow> Returns (Inl (ErrorsNew ''invalid contract''), w\<lparr>contractSet := cs1\<rparr>)
       | Some sc \<Rightarrow>
           (let contract = header sc;
                (res, w1) = NewEditor_dial env h cid currentHeight contract (w\<lparr>contractSet := cs1\<rparr>);
                err = (case res of Inl e \<Rightarrow> Some e | Inr _ \<Rightarrow> None);
                w2 = w1\<lparr>hdb := NewEditor_reputation env contract err (hdb w1)\<rparr>
            in obind (Return (critical_panics env) (contractSet w2) cid) (\<lambda>cs2.
                 Returns (res, w2\<lparr>contractSet := cs2\<rparr>))))"

section \<open>Concrete values for the instances below\<close>

definition ex_revision :: FileContractRevision where
  "ex_revision =
     \<lparr>NewWindowEnd = 100,
      NewValidProofOutputs = [\<lparr>Value = 1000, UnlockHash = []\<rparr>, \<lparr>Value = 50, UnlockHash = []\<rparr>],
      NewMissedProofOutputs = [\<lparr>Value = 1000, UnlockHash = []\<rparr>, \<lparr>Value = 50, UnlockHash = []\<rparr>],
      NewFileMerkleRoot = []\<rparr>"

definition ex_header :: contractHeader where
  "ex_header = \<lparr>LastRevision = ex_revision, RenterFunds = 1000, SecretKey = [], HostPublicKey = [9]\<rparr>"

definition ex_contract :: SafeContract where
  "ex_contract = \<lparr>header = ex_header, merkleRoots = [], sc_f = \<lparr>written = 0, flushed = 0\<rparr>,
                   sc_wal = Some 0, sc_mu = False\<rparr>"

definition ex_set :: ContractSet where
  "ex_set = \<lparr>contracts = [[7] \<mapsto> ex_contract], cs_wal = 0, cs_mu = False\<rparr>"

text \<open>
  A version comparison to instantiate \<open>VersionCmp\<close> with: the dotted numbers are
  compared one by one, and of two versions that agree on the shorter one the longer
  is the greater.
\<close>

fun ex_fields :: "string \<Rightarrow> nat \<Rightarrow> nat list" where
  "ex_fields [] n = [n]"
| "ex_fields (c # cs) n =
     (if c = CHR ''.'' then n # ex_fields cs 0
      else ex_fields cs (10 * n + (of_char c - 48)))"

fun ex_cmp :: "nat list \<Rightarrow> nat list \<Rightarrow> int" where
  "ex_cmp [] [] = 0"
| "ex_cmp [] (y # ys) = - 1"
| "ex_cmp (x # xs) [] = 1"
| "ex_cmp (x # xs) (y # ys) = (if x < y then - 1 else if y < x then 1 else ex_cmp xs ys)"

definition ex_VersionCmp :: "string \<Rightarrow> string \<Rightarrow> int" where
  "ex_VersionCmp a b = ex_cmp (ex_fields a 0) (ex_fields b 0)"

definition ex_Metadata :: "SafeContract \<Rightarrow> ContractMetadata" where
  "ex_Metadata c = \<lparr>ID = HostPublicKey (header c), md_RenterFunds = RenterFunds (header c)\<rparr>"

definition ex_Unmarshal_updateSetHeader :: "bytes \<Rightarrow> error + updateSetHeader" where
  "ex_Unmarshal_updateSetHeader b =
     (case b of
        [] \<Rightarrow> Inl (ErrorsNew ''could not decode'')
      | k # rest \<Rightarrow>
          Inr \<lparr>ush_ID = [k],
               ush_Header = \<lparr>LastRevision = ex_revision, RenterFunds = length rest,
                             SecretKey = [], HostPublicKey = [k]\<rparr>\<rparr>)"

definition ex_Unmarshal_updateSetRoot :: "bytes \<Rightarrow> error + updateSetRoot" where
  "ex_Unmarshal_updateSetRoot b =
     (case b of
        [] \<Rightarrow> Inl (ErrorsNew ''could not decode'')
      | k # rest \<Rightarrow> Inr \<lparr>usr_ID = [k], usr_Root = rest, usr_Index = 0\<rparr>)"

definition ex_applySetHeader :: "SafeContract \<Rightarrow> contractHeader \<Rightarrow> error option \<times> SafeContract" where
  "ex_applySetHeader c h =
     (None, c\<lparr>header := h, sc_f := (sc_f c)\<lparr>written := Suc (written (sc_f c))\<rparr>\<rparr>)"

definition ex_applySetRoot :: "SafeContract \<Rightarrow> Hash \<Rightarrow> int \<Rightarrow> error option \<times> SafeContract" where
  "ex_applySetRoot c r i =
     (if i < 0 then (Some (ErrorsNew ''negative offset''), c)
      else (None, c\<lparr>merkleRoots :=
                       (merkleRoots c @ replicate (Suc (nat i) - length (merkleRoots c)) [])[nat i := r],
                     sc_f := (sc_f c)\<lparr>written := Suc (written (sc_f c))\<rparr>\<rparr>))"

definition ex_file_Sync :: "File \<Rightarrow> error option \<times> File" where
  "ex_file_Sync file = (None, file\<lparr>flushed := written file\<rparr>)"

definition ex_error_Error :: "error \<Rightarrow> string" where
  "ex_error_Error e = (case e of ErrorsNew msg \<Rightarrow> msg | ErrStopResponse \<Rightarrow> ''stop response'')"

definition ex_env :: "(nat \<times> nat) env" where
  "ex_env =
     \<lparr>critical_panics = True,
      Metadata = ex_Metadata,
      updateNameSetHeader = ''setHeader'',
      updateNameSetRoot = ''setRoot'',
      Unmarshal_updateSetHeader = ex_Unmarshal_updateSetHeader,
      Unmarshal_updateSetRoot = ex_Unmarshal_updateSetRoot,
      applySetHeader = ex_applySetHeader,
      applySetRoot = ex_applySetRoot,
      file_Sync = ex_file_Sync,
      IsPathSeparator = (\<lambda>c. c = CHR ''/''),
      os_Open = (\<lambda>dir. None),
      dir_Stat = (\<lambda>dir. Inr True),
      filepath_Join = (\<lambda>a b. a @ ''/'' @ b),
      writeaheadlog_New = (\<lambda>path. Inr ([], 0)),
      Readdirnames = (\<lambda>dir. Inr [''a.contract'']),
      loadSafeContract = (\<lambda>filename. Inr ex_contract),
      release = Standard,
      VersionCmp = ex_VersionCmp,
      SectorSize = 4194304,
      sectorHeight = 16,
      float64_const = (\<lambda>m k. (m, 10 ^ k)),
      float64_add = (\<lambda>(a, b) (c, d). (a * d + c * b, b * d)),
      float64_sub = (\<lambda>(a, b) (c, d). (a * d - c * b, b * d)),
      MulFloat = (\<lambda>c (n, d). c * n div d),
      MerkleRoot = (\<lambda>data. data),
      nodeSum = (\<lambda>left right. 1 # left @ right),
      newUploadRevision = (\<lambda>r root price collateral. r\<lparr>NewFileMerkleRoot := root\<rparr>),
      RecordUpload = (\<lambda>sc txn root sp bp. (None, sc\<lparr>merkleRoots := merkleRoots sc @ [root]\<rparr>)),
      IsRevisionMismatch = (\<lambda>e. e = ErrorsNew ''revision mismatch''),
      error_Error = ex_error_Error,
      Dial = (\<lambda>tr addr. None),
      WriteObject_RPC = (\<lambda>tr. None),
      verifyRecentRevision = (\<lambda>tr contract version. None),
      startRevision = (\<lambda>tr h. None),
      WriteObject_actions = (\<lambda>tr actions. None),
      negotiateRevision = (\<lambda>tr r k. ([1], None))\<rparr>"

definition ex_host :: HostDBEntry where
  "ex_host = \<lparr>NetAddress = ''host:9982'', Version = ''1.1.0'', StoragePrice = 1,
              UploadBandwidthPrice = 2, Collateral = 3, PublicKey = [9]\<rparr>"

definition ex_editor :: Editor where
  "ex_editor = \<lparr>contractID = [7], conn_closed = False, closeChan_closed = False,
                once_done = False, host = ex_host, height = 0\<rparr>"

definition ex_world :: world where
  "ex_world = \<lparr>contractSet = ex_set,
               hdb = \<lparr>FailedInteractions = (\<lambda>pk. 0), SuccessfulInteractions = (\<lambda>pk. 0)\<rparr>,
               trace = []\<rparr>"

text \<open>
  Three states of the world around \<open>ex_editor\<close>: the contract \<open>[7]\<close> with funds
  of 1000, with ample funds and a missed-proof collateral output of 50, and with
  ample funds and an ample collateral output.
\<close>

definition ex_funded_header :: contractHeader where
  "ex_funded_header = ex_header\<lparr>RenterFunds := 1000000000000\<rparr>"

definition ex_sound_header :: contractHeader where
  "ex_sound_header =
     ex_funded_header\<lparr>LastRevision := ex_revision\<lparr>NewMissedProofOutputs :=
        [\<lparr>Value = 1000, UnlockHash = []\<rparr>, \<lparr>Value = 1000000000000, UnlockHash = []\<rparr>]\<rparr>\<rparr>"

definition ex_world_with :: "contractHeader \<Rightarrow> world" where
  "ex_world_with h =
     ex_world\<lparr>contractSet := ex_set\<lparr>contracts := [[7] \<mapsto> ex_contract\<lparr>header := h\<rparr>]\<rparr>\<rparr>"

text \<open>
  An editor whose host reports version \<open>1.0.1\<close>, the same editor opened at height
  101, and a contract whose window ends at height \<open>2^42\<close>.
\<close>

definition ex_old_editor :: Editor where
  "ex_old_editor = ex_editor\<lparr>host := ex_host\<lparr>Version := ''1.0.1''\<rparr>\<rparr>"

definition ex_late_editor :: Editor where
  "ex_late_editor = ex_old_editor\<lparr>height := 101\<rparr>"

definition ex_far_header :: contractHeader where
  "ex_far_header = ex_header\<lparr>LastRevision := ex_revision\<lparr>NewWindowEnd := 4398046511104\<rparr>\<rparr>"

text \<open>
  Three variants of \<open>ex_env\<close>: a contract whose file cannot be written, so that
  \<open>RecordUpload\<close> fails and leaves the contract as it was, a connection that
  times out while the actions are written, and a host that fails the handshake of
  \<open>NewEditor\<close> with a revision mismatch. \<open>ex_hdb\<close> is a host database that has
  counted interactions with the host of key \<open>[9]\<close> only.
\<close>

definition ex_disk_env :: "(nat \<times> nat) env" where
  "ex_disk_env =
     ex_env\<lparr>RecordUpload := (\<lambda>sc txn root sp bp. (Some (ErrorsNew ''write failed''), sc))\<rparr>"

definition ex_timeout_env :: "(nat \<times> nat) env" where
  "ex_timeout_env = ex_env\<lparr>WriteObject_actions := (\<lambda>tr actions. Some (ErrorsNew ''i/o timeout''))\<rparr>"

definition ex_handshake_env :: "(nat \<times> nat) env" where
  "ex_handshake_env =
     ex_env\<lparr>verifyRecentRevision := (\<lambda>tr contract version. Some (ErrorsNew ''revision mismatch''))\<rparr>"

definition ex_hdb :: "nat \<Rightarrow> nat \<Rightarrow> hostDB" where
  "ex_hdb failed successful =
     \<lparr>FailedInteractions = (\<lambda>pk. 0)([9] := failed),
      SuccessfulInteractions = (\<lambda>pk. 0)([9] := successful)\<rparr>"

text \<open>
  Journal records for \<open>ex_env\<close>: a header and a root for the contract \<open>[7]\<close>, a
  root and a header for a contract \<open>[8]\<close>, and a record under a name the replay
  does not know. \<open>ex_journal_env\<close> is \<open>ex_env\<close> with a journal that recovers the
  root for the contract \<open>[7]\<close>.
\<close>

definition ex_update_header :: Update where
  "ex_update_header = \<lparr>Name = ''setHeader'', Instructions = [7, 0, 0]\<rparr>"

definition ex_update_root :: Update where
  "ex_update_root = \<lparr>Name = ''setRoot'', Instructions = [7, 1, 2]\<rparr>"

definition ex_update_absent :: Update where
  "ex_update_absent = \<lparr>Name = ''setRoot'', Instructions = [8, 1, 2]\<rparr>"

definition ex_update_unknown :: Update where
  "ex_update_unknown = \<lparr>Name = ''setFoo'', Instructions = [7]\<rparr>"

definition ex_update_absent_header :: Update where
  "ex_update_absent_header = \<lparr>Name = ''setHeader'', Instructions = [8]\<rparr>"

definition ex_journal_env :: "(nat \<times> nat) env" where
  "ex_journal_env = ex_env\<lparr>writeaheadlog_New := (\<lambda>path. Inr ([ex_update_root], 0))\<rparr>"

section \<open>Properties\<close>

lemma obind_simps [simp]:
  "obind (Returns x) k = k x"
  "obind (Panics msg) k = Panics msg"
  "obind Blocks k = Blocks"
  by (simp_all add: obind_def)

text \<open>
  C9. For an identifier absent from the map, \<open>Return\<close> never returns normally: with
  the lock of the set free it ends in the critical error "no contract with that id"
  when \<open>build.Critical\<close> panics, and in the runtime's fatal error on the second
  release of the set's lock when it does not; with the lock of the set held it
  blocks. For a present identifier whose contract is locked (it was acquired),
  \<open>Return\<close> returns, the contract's lock is free afterwards, the contract is
  otherwise as it was, and the map has the same keys and the same contracts under
  every other key.
\<close>

theorem Return_absent_aborts_present_unlocks:
  "(contracts cs cid = None \<longrightarrow>
      (\<forall>cs'. Return panics cs cid \<noteq> Returns cs') \<and>
      (\<not> cs_mu cs \<longrightarrow>
         Return panics cs cid =
           (if panics then Panics ''Critical error: no contract with that id''
            else Panics ''sync: unlock of unlocked mutex''))) \<and>
   (contracts cs cid = Some c \<and> sc_mu c \<and> \<not> cs_mu cs \<longrightarrow>
      Return panics cs cid =
        Returns (cs\<lparr>contracts := (contracts cs)(cid \<mapsto> c\<lparr>sc_mu := False\<rparr>)\<rparr>) \<and>
      (\<forall>cs'. Return panics cs cid = Returns cs' \<longrightarrow>
         dom (contracts cs') = dom (contracts cs) \<and>
         (\<forall>k. k \<noteq> cid \<longrightarrow> contracts cs' k = contracts cs k) \<and>
         cs_mu cs' = cs_mu cs))"
  by (auto simp: Return_def mutex_Lock_def mutex_Unlock_def Critical_def)

theorem Return_witness:
  "Return True ex_set [8] = Panics ''Critical error: no contract with that id'' \<and>
   Return False ex_set [8] = Panics ''sync: unlock of unlocked mutex'' \<and>
   Return True (ex_set\<lparr>contracts := [[7] \<mapsto> ex_contract\<lparr>sc_mu := True\<rparr>]\<rparr>) [7] = Returns ex_set"
  using Return_absent_aborts_present_unlocks [where cs = ex_set and cid = "[8]" and panics = True]
        Return_absent_aborts_present_unlocks [where cs = ex_set and cid = "[8]" and panics = False]
        Return_absent_aborts_present_unlocks
          [where cs = "ex_set\<lparr>contracts := [[7] \<mapsto> ex_contract\<lparr>sc_mu := True\<rparr>]\<rparr>" and cid = "[7]"
             and c = "ex_contract\<lparr>sc_mu := True\<rparr>" and panics = True]
  by (simp add: ex_set_def ex_contract_def)

subsection \<open>Acquiring and returning a free contract\<close>

lemma Currency_Cmp_less [simp]: "Currency_Cmp c d < 0 \<longleftrightarrow> c < d"
  by (simp add: Currency_Cmp_def)

lemma Acquire_present:
  assumes "contracts cs cid = Some c" "\<not> cs_mu cs" "\<not> sc_mu c"
  shows "Acquire cs cid =
           Returns (Some (c\<lparr>sc_mu := True\<rparr>), cs\<lparr>contracts := (contracts cs)(cid \<mapsto> c\<lparr>sc_mu := True\<rparr>)\<rparr>)"
  using assms by (simp add: Acquire_def mutex_Lock_def mutex_Unlock_def)

lemma Return_after_Acquire:
  assumes "contracts cs cid = Some c" "\<not> cs_mu cs" "\<not> sc_mu c"
  shows "Return panics (cs\<lparr>contracts := (contracts cs)(cid \<mapsto> c\<lparr>sc_mu := True\<rparr>)\<rparr>) cid = Returns cs"
proof -
  have "(contracts cs)(cid \<mapsto> c) = contracts cs"
    using assms(1) by (rule map_upd_triv)
  moreover have "c\<lparr>sc_mu := False\<rparr> = c"
    using assms(3) by simp
  ultimately show ?thesis
    using assms(2) by (simp add: Return_def mutex_Lock_def mutex_Unlock_def)
qed

lemmas ex_values =
  ex_world_with_def ex_world_def ex_set_def ex_contract_def ex_header_def ex_funded_header_def
  ex_sound_header_def ex_revision_def ex_editor_def ex_host_def

lemmas ex_prices =
  sectorPrice_def sectorStoragePrice_def sectorBandwidthPrice_def sectorCollateral_def
  blockBytes_def leeway_applies_def hostPriceLeeway_def Currency_Mul_def Currency_Mul64_def
  Currency_Add_def NewCurrency64_def ex_env_def ex_VersionCmp_def

text \<open>
  C1. On a session whose contract is in the set (and free to be acquired): when the
  renter funds of the contract are below the total price, \<open>Upload\<close> returns the
  insufficient-funds error; otherwise, when the second missed-proof output is worth
  less than the required collateral, it returns the insufficient-collateral error.
  Either way the editor and the world come back as they were: nothing was sent on
  the connection and neither counter of the host database moved.
\<close>

theorem Upload_rejects_before_network:
  assumes "contracts (contractSet w) (contractID he) = Some c"
    and "\<not> cs_mu (contractSet w)" and "\<not> sc_mu c"
  shows "(RenterFunds (header c) < sectorPrice env he (header c) \<longrightarrow>
            Upload env he data w =
              Returns (Inl (ErrorsNew ''contract has insufficient funds to support upload''), he, w)) \<and>
         (\<not> RenterFunds (header c) < sectorPrice env he (header c) \<and>
          1 < length (NewMissedProofOutputs (LastRevision (header c))) \<and>
          Value (NewMissedProofOutputs (LastRevision (header c)) ! 1) < sectorCollateral env he (header c) \<longrightarrow>
            Upload env he data w =
              Returns (Inl (ErrorsNew ''contract has insufficient collateral to support upload''), he, w))"
proof -
  let ?cs1 = "(contractSet w)\<lparr>contracts := (contracts (contractSet w))(contractID he \<mapsto> c\<lparr>sc_mu := True\<rparr>)\<rparr>"
  have acq: "Acquire (contractSet w) (contractID he) = Returns (Some (c\<lparr>sc_mu := True\<rparr>), ?cs1)"
    using assms by (rule Acquire_present)
  have ret: "Return (critical_panics env) ?cs1 (contractID he) = Returns (contractSet w)"
    using assms by (rule Return_after_Acquire)
  show ?thesis
    by (simp add: Upload_def acq Upload_locked_def index_def ret)
qed

theorem Upload_rejects_witness:
  "contracts (contractSet (ex_world_with ex_header)) (contractID ex_editor) =
     Some (ex_contract\<lparr>header := ex_header\<rparr>) \<and>
   RenterFunds ex_header < sectorPrice ex_env ex_editor ex_header \<and>
   sectorPrice ex_env ex_editor ex_funded_header \<le> RenterFunds ex_funded_header \<and>
   Value (NewMissedProofOutputs (LastRevision ex_funded_header) ! 1)
     < sectorCollateral ex_env ex_editor ex_funded_header \<and>
   Upload ex_env ex_editor [1, 2, 3] (ex_world_with ex_header) =
     Returns (Inl (ErrorsNew ''contract has insufficient funds to support upload''),
              ex_editor, ex_world_with ex_header) \<and>
   Upload ex_env ex_editor [1, 2, 3] (ex_world_with ex_funded_header) =
     Returns (Inl (ErrorsNew ''contract has insufficient collateral to support upload''),
              ex_editor, ex_world_with ex_funded_header)"
  using Upload_rejects_before_network
          [where w = "ex_world_with ex_header" and he = ex_editor
             and c = "ex_contract\<lparr>header := ex_header\<rparr>" and env = ex_env and data = "[1, 2, 3]"]
        Upload_rejects_before_network
          [where w = "ex_world_with ex_funded_header" and he = ex_editor
             and c = "ex_contract\<lparr>header := ex_funded_header\<rparr>" and env = ex_env and data = "[1, 2, 3]"]
  by (simp add: ex_values ex_prices)

text \<open>
  When the funds suffice and the revision has fewer than two missed-proof outputs,
  the read of the second one panics.
\<close>

lemma Upload_panics_without_collateral_output:
  assumes "contracts (contractSet w) (contractID he) = Some c"
    and "\<not> cs_mu (contractSet w)" and "\<not> sc_mu c"
    and "\<not> RenterFunds (header c) < sectorPrice env he (header c)"
    and "length (NewMissedProofOutputs (LastRevision (header c))) \<le> 1"
  shows "Upload env he data w = Panics ''index out of range''"
proof -
  let ?c1 = "c\<lparr>sc_mu := True\<rparr>"
  let ?cs1 = "(contractSet w)\<lparr>contracts := (contracts (contractSet w))(contractID he \<mapsto> ?c1)\<rparr>"
  have acq: "Acquire (contractSet w) (contractID he) = Returns (Some ?c1, ?cs1)"
    using assms(1-3) by (rule Acquire_present)
  show ?thesis
    using assms(4,5) by (simp add: Upload_def acq Upload_locked_def index_def)
qed

text \<open>
  C8. \<open>Delete\<close> and \<open>Modify\<close> of a session return the error "not supported" on
  every input and leave the editor and the world as they were: no call on the
  connection, no acquisition of the contract, no change of any counter.
\<close>

theorem Delete_Modify_not_supported:
  "Editor_Delete he root w = (Inl (ErrorsNew ''not supported''), he, w) \<and>
   Editor_Modify he oldRoot newRoot offset newData w = (Inl (ErrorsNew ''not supported''), he, w)"
  by (simp add: Editor_Delete_def Editor_Modify_def)

subsection \<open>Prices\<close>

lemma wrap_sub_nat:
  fixes a b m :: nat
  assumes "a < m" "b < m"
  shows "(if b \<le> a then a - b else a + m - b) = (a + m - b) mod m"
proof (cases "b \<le> a")
  case True
  then have "a + m - b = (a - b) + m"
    by simp
  then have "(a + m - b) mod m = (a - b) mod m"
    by simp
  also have "\<dots> = a - b"
    using assms(1) by (simp add: less_imp_diff_less)
  finally show ?thesis
    using True by simp
next
  case False
  then have "a + m - b < m"
    using assms(2) by simp
  then show ?thesis
    using False by simp
qed

lemma unat_sub_mod64:
  "unat (x - y :: 64 word) = (unat x + 2 ^ 64 - unat y) mod 2 ^ 64"
proof -
  have bx: "unat x < 2 ^ 64" and "unat y < 2 ^ 64"
    using unsigned_less [of x, where ?'a = nat] unsigned_less [of y, where ?'a = nat] by simp_all
  then have w: "(if unat y \<le> unat x then unat x - unat y else unat x + 2 ^ 64 - unat y) =
                (unat x + 2 ^ 64 - unat y) mod 2 ^ 64"
    by (rule wrap_sub_nat)
  have s: "size x = 64"
    by (simp add: word_size)
  have "unat (x - y) = (if unat y \<le> unat x then unat x - unat y else unat x + 2 ^ 64 - unat y)"
    by (simp only: unat_sub_if_size s)
  with w show ?thesis
    by (simp only:)
qed

lemma blockBytes_wraps:
  "blockBytes env he contract =
     unat (SectorSize env) * ((unat (NewWindowEnd (LastRevision contract)) + 2 ^ 64 - unat (height he)) mod 2 ^ 64)
       mod 2 ^ 64"
  by (simp only: blockBytes_def NewCurrency64_def unat_word_ariths unat_sub_mod64) simp

lemma blockBytes_exact:
  assumes "height he \<le> NewWindowEnd (LastRevision contract)"
    and "unat (SectorSize env) * (unat (NewWindowEnd (LastRevision contract)) - unat (height he)) < 2 ^ 64"
  shows "blockBytes env he contract =
           unat (SectorSize env) * (unat (NewWindowEnd (LastRevision contract)) - unat (height he))"
proof -
  have d: "unat (NewWindowEnd (LastRevision contract) - height he) =
             unat (NewWindowEnd (LastRevision contract)) - unat (height he)"
    using assms(1) by (rule unat_sub)
  show ?thesis
    using assms(2) by (simp add: blockBytes_def NewCurrency64_def unat_word_ariths d)
qed


text \<open>
  C2, as the code has it. The coverage \<open>blockBytes\<close> is the product of the sector
  size and of the difference between the window end and the captured height, both
  taken in unsigned 64-bit arithmetic: they wrap modulo \<open>2^64\<close>, and the coverage is
  the exact product when the captured height is not above the window end and the
  product is below \<open>2^64\<close>. The storage price is the host's storage price times the
  coverage, the bandwidth price the host's upload price times the sector size, the
  collateral the host's collateral rate times the coverage. When the version of
  the host compares above \<open>1.0.1\<close>, the two prices go through \<open>MulFloat\<close> with
  \<open>1 + hostPriceLeeway\<close> and the collateral with \<open>1 - hostPriceLeeway\<close>, where
  the leeway is 0.002 in the standard and testing builds and 0.05 in the dev build;
  otherwise they are used as they are. The total price is the sum of the two prices.
\<close>

theorem Upload_prices:
  "blockBytes env he contract =
     unat (SectorSize env) * ((unat (NewWindowEnd (LastRevision contract)) + 2 ^ 64 - unat (height he)) mod 2 ^ 64)
       mod 2 ^ 64 \<and>
   (height he \<le> NewWindowEnd (LastRevision contract) \<and>
    unat (SectorSize env) * (unat (NewWindowEnd (LastRevision contract)) - unat (height he)) < 2 ^ 64 \<longrightarrow>
      blockBytes env he contract =
        unat (SectorSize env) * (unat (NewWindowEnd (LastRevision contract)) - unat (height he))) \<and>
   (\<not> 0 < VersionCmp env (Version (host he)) ''1.0.1'' \<longrightarrow>
      sectorStoragePrice env he contract = StoragePrice (host he) * blockBytes env he contract \<and>
      sectorBandwidthPrice env he = UploadBandwidthPrice (host he) * unat (SectorSize env) \<and>
      sectorCollateral env he contract = Collateral (host he) * blockBytes env he contract) \<and>
   (0 < VersionCmp env (Version (host he)) ''1.0.1'' \<longrightarrow>
      sectorStoragePrice env he contract =
        MulFloat env (StoragePrice (host he) * blockBytes env he contract)
          (float64_add env (float64_const env 1 0) (hostPriceLeeway env)) \<and>
      sectorBandwidthPrice env he =
        MulFloat env (UploadBandwidthPrice (host he) * unat (SectorSize env))
          (float64_add env (float64_const env 1 0) (hostPriceLeeway env)) \<and>
      sectorCollateral env he contract =
        MulFloat env (Collateral (host he) * blockBytes env he contract)
          (float64_sub env (float64_const env 1 0) (hostPriceLeeway env))) \<and>
   hostPriceLeeway env = (case release env of Dev \<Rightarrow> float64_const env 5 2 | _ \<Rightarrow> float64_const env 2 3) \<and>
   sectorPrice env he contract = sectorStoragePrice env he contract + sectorBandwidthPrice env he"
proof -
  have lee: "hostPriceLeeway env = (case release env of Dev \<Rightarrow> float64_const env 5 2 | _ \<Rightarrow> float64_const env 2 3)"
    by (simp add: hostPriceLeeway_def split: Release.split)
  show ?thesis
    using blockBytes_wraps [of env he contract] blockBytes_exact [of he contract env] lee
    by (simp add: sectorStoragePrice_def sectorBandwidthPrice_def sectorCollateral_def sectorPrice_def
        leeway_applies_def Currency_Mul_def Currency_Mul64_def Currency_Add_def)
qed

theorem Upload_prices_witness:
  "height ex_editor \<le> NewWindowEnd (LastRevision ex_header) \<and>
   blockBytes ex_env ex_editor ex_header = 4194304 * 100 \<and>
   0 < VersionCmp ex_env (Version (host ex_editor)) ''1.0.1'' \<and>
   sectorStoragePrice ex_env ex_editor ex_header = 420269260 \<and>
   sectorBandwidthPrice ex_env ex_editor = 8405385 \<and>
   sectorCollateral ex_env ex_editor ex_header = 1255774617 \<and>
   \<not> 0 < VersionCmp ex_env (Version (host ex_old_editor)) ''1.0.1'' \<and>
   sectorStoragePrice ex_env ex_old_editor ex_header = 419430400 \<and>
   sectorBandwidthPrice ex_env ex_old_editor = 8388608 \<and>
   sectorCollateral ex_env ex_old_editor ex_header = 1258291200"
  using Upload_prices [of ex_env ex_editor ex_header] Upload_prices [of ex_env ex_old_editor ex_header]
  by (simp add: ex_values ex_old_editor_def ex_env_def ex_VersionCmp_def hostPriceLeeway_def)

text \<open>
  The claim as stated, with the difference and the product as integers, fails on
  the code. With a sector of \<open>2^22\<close> bytes, a window end of \<open>2^42\<close> and a captured
  height of 0 the product is \<open>2^64\<close> and the storage price of the code is 0. With a
  window end of 100 and a captured height of 101 the difference is negative and the
  storage price of the code is \<open>2^64 - 2^22\<close>.
\<close>

theorem Upload_prices_counterexample:
  "int (sectorStoragePrice ex_env ex_old_editor ex_far_header) \<noteq>
     int (StoragePrice (host ex_old_editor)) *
       (int (unat (SectorSize ex_env)) *
          (int (unat (NewWindowEnd (LastRevision ex_far_header))) - int (unat (height ex_old_editor)))) \<and>
   sectorStoragePrice ex_env ex_old_editor ex_far_header = 0 \<and>
   int (sectorStoragePrice ex_env ex_late_editor ex_header) \<noteq>
     int (StoragePrice (host ex_late_editor)) *
       (int (unat (SectorSize ex_env)) *
          (int (unat (NewWindowEnd (LastRevision ex_header))) - int (unat (height ex_late_editor)))) \<and>
   sectorStoragePrice ex_env ex_late_editor ex_header = 18446744073705357312"
  by (simp add: ex_values ex_old_editor_def ex_late_editor_def ex_far_header_def ex_prices)

subsection \<open>Reputation\<close>

lemma emit_simps [simp]:
  "contractSet (emit e w) = contractSet w"
  "hdb (emit e w) = hdb w"
  "trace (emit e w) = trace w @ [e]"
  "emit e (w\<lparr>contractSet := cs\<rparr>) = (emit e w)\<lparr>contractSet := cs\<rparr>"
  by (simp_all add: emit_def)

lemma extendDeadline_simps [simp]:
  "contractSet (extendDeadline d w) = contractSet w"
  "hdb (extendDeadline d w) = hdb w"
  "trace (extendDeadline d w) = trace w @ [ExtendDeadline d]"
  "extendDeadline d (w\<lparr>contractSet := cs\<rparr>) = (extendDeadline d w)\<lparr>contractSet := cs\<rparr>"
  by (simp_all add: extendDeadline_def)

lemma runRevisionIteration_body_frame:
  "runRevisionIteration_body env he a k r n (w\<lparr>contractSet := cs\<rparr>) =
     (case runRevisionIteration_body env he a k r n w of
        (x, he', w') \<Rightarrow> (x, he', w'\<lparr>contractSet := cs\<rparr>))"
  by (simp add: runRevisionIteration_body_def Let_def conn_Close_def split: option.split prod.split)

lemma runRevisionIteration_body_keeps:
  assumes "runRevisionIteration_body env he a k r n w = (x, he', w')"
  shows "hdb w' = hdb w \<and> contractSet w' = contractSet w"
  using assms
  by (auto simp: runRevisionIteration_body_def Let_def conn_Close_def
      split: option.splits prod.splits if_splits)

lemma runRevisionIteration_frame:
  "runRevisionIteration env he a k r n (w\<lparr>contractSet := cs\<rparr>) =
     (case runRevisionIteration env he a k r n w of
        (x, he', w') \<Rightarrow> (x, he', w'\<lparr>contractSet := cs\<rparr>))"
  by (auto simp: runRevisionIteration_def runRevisionIteration_body_frame Let_def split: prod.split)

lemma runRevisionIteration_reputation:
  assumes "runRevisionIteration env he a k r n w = ((txn, err), he', w')"
  shows "contractSet w' = contractSet w \<and>
         hdb w' = (if err \<noteq> None then IncrementFailedInteractions (hdb w) (PublicKey (host he))
                   else IncrementSuccessfulInteractions (hdb w) (PublicKey (host he)))"
proof -
  obtain y he1 w1 where b: "runRevisionIteration_body env he a k r n w = (y, he1, w1)"
    by (metis prod_cases3)
  then have k: "hdb w1 = hdb w \<and> contractSet w1 = contractSet w"
    by (rule runRevisionIteration_body_keeps)
  show ?thesis
    using assms b k
    by (auto simp: runRevisionIteration_def Let_def split: prod.splits if_splits)
qed


lemma Upload_exchange_locked:
  "Upload_exchange env he data (c\<lparr>sc_mu := l\<rparr>) (w\<lparr>contractSet := cs\<rparr>) =
     (case Upload_exchange env he data c w of (x, he', w') \<Rightarrow> (x, he', w'\<lparr>contractSet := cs\<rparr>))"
  by (simp add: Upload_exchange_def Let_def runRevisionIteration_frame)

lemma Upload_exchange_reputation:
  assumes "Upload_exchange env he data c w = ((txn, err), he', w')"
  shows "contractSet w' = contractSet w \<and>
         hdb w' = (if err \<noteq> None then IncrementFailedInteractions (hdb w) (PublicKey (host he))
                   else IncrementSuccessfulInteractions (hdb w) (PublicKey (host he)))"
  using assms unfolding Upload_exchange_def Let_def by (rule runRevisionIteration_reputation)

lemma Upload_exchange_fails:
  assumes "contracts (contractSet w) (contractID he) = Some c"
    and "\<not> cs_mu (contractSet w)" and "\<not> sc_mu c"
    and "\<not> RenterFunds (header c) < sectorPrice env he (header c)"
    and "1 < length (NewMissedProofOutputs (LastRevision (header c)))"
    and "\<not> Value (NewMissedProofOutputs (LastRevision (header c)) ! 1) < sectorCollateral env he (header c)"
    and "Upload_exchange env he data c w = ((txn, Some e), he', w')"
  shows "Upload env he data w = Returns (Inl e, he', w') \<and>
         hdb w' = IncrementFailedInteractions (hdb w) (PublicKey (host he))"
proof -
  let ?c1 = "c\<lparr>sc_mu := True\<rparr>"
  let ?cs1 = "(contractSet w)\<lparr>contracts := (contracts (contractSet w))(contractID he \<mapsto> ?c1)\<rparr>"
  have acq: "Acquire (contractSet w) (contractID he) = Returns (Some ?c1, ?cs1)"
    using assms(1-3) by (rule Acquire_present)
  have ret: "Return (critical_panics env) ?cs1 (contractID he) = Returns (contractSet w)"
    using assms(1-3) by (rule Return_after_Acquire)
  have rep: "contractSet w' = contractSet w"
    "hdb w' = IncrementFailedInteractions (hdb w) (PublicKey (host he))"
    using Upload_exchange_reputation [OF assms(7)] by simp_all
  have locked: "Upload_locked env he data ?c1 (w\<lparr>contractSet := ?cs1\<rparr>) =
                  Returns (Inl e, ?c1, he', w'\<lparr>contractSet := ?cs1\<rparr>)"
    using assms(4-7) by (simp add: Upload_locked_def index_def Upload_exchange_locked)
  have same: "w'\<lparr>contractSet := contractSet w\<rparr> = w'"
    using rep(1) by simp
  have "Upload env he data w = Returns (Inl e, he', w'\<lparr>contractSet := contractSet w\<rparr>)"
    by (simp add: Upload_def acq locked ret)
  then show ?thesis
    using same rep(2) by simp
qed

text \<open>
  The other way out of the exchange: when it succeeds, the successful-interactions
  counter is incremented, \<open>RecordUpload\<close> decides the result, and the contract
  comes back into the set as \<open>RecordUpload\<close> left it, unlocked. \<open>Upload_example\<close>
  runs an upload from the first check to the return of the contract.
\<close>

lemma Upload_exchange_succeeds:
  assumes "contracts (contractSet w) (contractID he) = Some c"
    and "\<not> cs_mu (contractSet w)" and "\<not> sc_mu c"
    and "\<not> RenterFunds (header c) < sectorPrice env he (header c)"
    and "1 < length (NewMissedProofOutputs (LastRevision (header c)))"
    and "\<not> Value (NewMissedProofOutputs (LastRevision (header c)) ! 1) < sectorCollateral env he (header c)"
    and "Upload_exchange env he data c w = ((txn, None), he', w')"
    and "RecordUpload env (c\<lparr>sc_mu := True\<rparr>) txn (MerkleRoot env data)
           (sectorStoragePrice env he (header c)) (sectorBandwidthPrice env he) = (r, sc')"
    and "sc_mu sc'"
  shows "Upload env he data w =
           Returns (case r of Some e \<Rightarrow> Inl e | None \<Rightarrow> Inr (Metadata env sc', MerkleRoot env data),
                    he',
                    w'\<lparr>contractSet := (contractSet w)
                        \<lparr>contracts := (contracts (contractSet w))(contractID he \<mapsto> sc'\<lparr>sc_mu := False\<rparr>)\<rparr>\<rparr>) \<and>
         hdb w' = IncrementSuccessfulInteractions (hdb w) (PublicKey (host he))"
proof -
  let ?c1 = "c\<lparr>sc_mu := True\<rparr>"
  let ?cs1 = "(contractSet w)\<lparr>contracts := (contracts (contractSet w))(contractID he \<mapsto> ?c1)\<rparr>"
  let ?res = "case r of Some e \<Rightarrow> Inl e | None \<Rightarrow> Inr (Metadata env sc', MerkleRoot env data)"
  have acq: "Acquire (contractSet w) (contractID he) = Returns (Some ?c1, ?cs1)"
    using assms(1-3) by (rule Acquire_present)
  have rep: "contractSet w' = contractSet w"
    "hdb w' = IncrementSuccessfulInteractions (hdb w) (PublicKey (host he))"
    using Upload_exchange_reputation [OF assms(7)] by simp_all
  have locked: "Upload_locked env he data ?c1 (w\<lparr>contractSet := ?cs1\<rparr>) =
                  Returns (?res, sc', he', w'\<lparr>contractSet := ?cs1\<rparr>)"
    using assms(4-8) by (simp add: Upload_locked_def index_def Upload_exchange_locked split: option.split)
  have ret: "Return (critical_panics env) (?cs1\<lparr>contracts := (contracts ?cs1)(contractID he \<mapsto> sc')\<rparr>)
               (contractID he) =
             Returns ((contractSet w)
               \<lparr>contracts := (contracts (contractSet w))(contractID he \<mapsto> sc'\<lparr>sc_mu := False\<rparr>)\<rparr>)"
    using assms(2,9) by (simp add: Return_def mutex_Lock_def mutex_Unlock_def)
  have "Upload env he data w =
          Returns (?res, he',
            w'\<lparr>contractSet := (contractSet w)
                \<lparr>contracts := (contracts (contractSet w))(contractID he \<mapsto> sc'\<lparr>sc_mu := False\<rparr>)\<rparr>\<rparr>)"
    using ret by (simp add: Upload_def acq locked)
  then show ?thesis
    using rep(2) by simp
qed

lemma Upload_example:
  "Upload ex_env ex_editor [1, 2, 3] (ex_world_with ex_sound_header) =
     Returns (Inr (\<lparr>ID = [9], md_RenterFunds = 1000000000000\<rparr>, [1, 2, 3]), ex_editor,
       \<lparr>contractSet = ex_set\<lparr>contracts :=
            [[7] \<mapsto> ex_contract\<lparr>header := ex_sound_header, merkleRoots := [[1, 2, 3]]\<rparr>]\<rparr>,
        hdb = ex_hdb 0 1,
        trace = [ExtendDeadline NegotiateSettingsTime, StartRevision,
                 ExtendDeadline NegotiateFileContractRevisionTime,
                 WriteActions [\<lparr>Type = ActionInsert, SectorIndex = 0, Data = [1, 2, 3]\<rparr>],
                 ExtendDeadline TwoMinutes,
                 NegotiateRevision (ex_revision\<lparr>NewMissedProofOutputs :=
                     [\<lparr>Value = 1000, UnlockHash = []\<rparr>, \<lparr>Value = 1000000000000, UnlockHash = []\<rparr>],
                   NewFileMerkleRoot := [1, 2, 3]\<rparr>),
                 ExtendDeadline Hour]\<rparr>)"
proof -
  let ?w = "ex_world_with ex_sound_header"
  let ?c = "ex_contract\<lparr>header := ex_sound_header\<rparr>"
  let ?tr = "[ExtendDeadline NegotiateSettingsTime, StartRevision,
                 ExtendDeadline NegotiateFileContractRevisionTime,
                 WriteActions [\<lparr>Type = ActionInsert, SectorIndex = 0, Data = [1, 2, 3]\<rparr>],
                 ExtendDeadline TwoMinutes,
                 NegotiateRevision (ex_revision\<lparr>NewMissedProofOutputs :=
                     [\<lparr>Value = 1000, UnlockHash = []\<rparr>, \<lparr>Value = 1000000000000, UnlockHash = []\<rparr>],
                   NewFileMerkleRoot := [1, 2, 3]\<rparr>),
                 ExtendDeadline Hour]"
  let ?w1 = "?w\<lparr>hdb := ex_hdb 0 1, trace := ?tr\<rparr>"
  have p: "contracts (contractSet ?w) (contractID ex_editor) = Some ?c"
    "\<not> cs_mu (contractSet ?w)" "\<not> sc_mu ?c"
    by (simp_all add: ex_values)
  have v: "\<not> RenterFunds (header ?c) < sectorPrice ex_env ex_editor (header ?c)"
    "1 < length (NewMissedProofOutputs (LastRevision (header ?c)))"
    "\<not> Value (NewMissedProofOutputs (LastRevision (header ?c)) ! 1)
        < sectorCollateral ex_env ex_editor (header ?c)"
    by (simp_all add: ex_values ex_prices)
  have x: "Upload_exchange ex_env ex_editor [1, 2, 3] ?c ?w = (([1], None), ex_editor, ?w1)"
    by (simp add: Upload_exchange_def runRevisionIteration_def runRevisionIteration_body_def
        cachedMerkleRoot_def NewCachedTree_def CachedTree_Push_def CachedTree_Root_def
        ex_env_def ex_values ex_hdb_def IncrementSuccessfulInteractions_def
        extendDeadline_def emit_def Let_def fun_eq_iff)
  have r: "RecordUpload ex_env (?c\<lparr>sc_mu := True\<rparr>) [1] (MerkleRoot ex_env [1, 2, 3])
             (sectorStoragePrice ex_env ex_editor (header ?c)) (sectorBandwidthPrice ex_env ex_editor) =
           (None, ?c\<lparr>sc_mu := True, merkleRoots := [[1, 2, 3]]\<rparr>)"
    by (simp add: ex_env_def ex_values)
  show ?thesis
    using Upload_exchange_succeeds [OF p v x r]
    by (simp add: ex_env_def ex_Metadata_def ex_values)
qed

lemma NewEditor_dial_keeps:
  assumes "NewEditor_dial env h cid ht contract w = (res, w')"
  shows "hdb w' = hdb w \<and> contractSet w' = contractSet w"
  using assms by (auto simp: NewEditor_dial_def Let_def split: option.splits)

lemma NewEditor_reputation_result:
  assumes "contracts (contractSet w) cid = Some c"
    and "\<not> cs_mu (contractSet w)" and "\<not> sc_mu c"
    and "NewEditor env h cid ht w = Returns (res, w')"
  shows "hdb w' = NewEditor_reputation env (header c)
                    (case res of Inl e \<Rightarrow> Some e | Inr x \<Rightarrow> None) (hdb w)"
proof -
  let ?c1 = "c\<lparr>sc_mu := True\<rparr>"
  let ?cs1 = "(contractSet w)\<lparr>contracts := (contracts (contractSet w))(cid \<mapsto> ?c1)\<rparr>"
  have acq: "Acquire (contractSet w) cid = Returns (Some ?c1, ?cs1)"
    using assms(1-3) by (rule Acquire_present)
  have ret: "Return (critical_panics env) ?cs1 cid = Returns (contractSet w)"
    using assms(1-3) by (rule Return_after_Acquire)
  obtain r w1 where d: "NewEditor_dial env h cid ht (header c) (w\<lparr>contractSet := ?cs1\<rparr>) = (r, w1)"
    by (cases "NewEditor_dial env h cid ht (header c) (w\<lparr>contractSet := ?cs1\<rparr>)")
  have k: "hdb w1 = hdb w" "contractSet w1 = ?cs1"
    using NewEditor_dial_keeps [OF d] by simp_all
  show ?thesis
    using assms(4) by (auto simp: NewEditor_def acq d k ret Let_def)
qed


text \<open>
  C3, as the code has it. On a session whose contract is in the set and free, when
  the checks of \<open>Upload\<close> pass, the counters of the host follow the exchange with
  the host. When the exchange returns an error that is not a revision mismatch,
  \<open>Upload\<close> returns that error and the failed-interactions counter has been
  incremented. When the exchange succeeds, the successful-interactions counter has
  been incremented, also when \<open>RecordUpload\<close> then fails and \<open>Upload\<close> returns
  its error. The handshake of \<open>NewEditor\<close> exempts the revision mismatch: when it
  fails with one the host database is as before, and with any other error the
  failed-interactions counter has been incremented.
\<close>

theorem Upload_reputation_follows_exchange:
  assumes "contracts (contractSet w) (contractID he) = Some c"
    and "\<not> cs_mu (contractSet w)" and "\<not> sc_mu c"
  shows "(\<not> RenterFunds (header c) < sectorPrice env he (header c) \<and>
          1 < length (NewMissedProofOutputs (LastRevision (header c))) \<and>
          \<not> Value (NewMissedProofOutputs (LastRevision (header c)) ! 1) < sectorCollateral env he (header c) \<and>
          Upload_exchange env he data c w = ((txn, Some e), he', w') \<and>
          \<not> IsRevisionMismatch env e \<longrightarrow>
            Upload env he data w = Returns (Inl e, he', w') \<and>
            hdb w' = IncrementFailedInteractions (hdb w) (PublicKey (host he))) \<and>
         (\<not> RenterFunds (header c) < sectorPrice env he (header c) \<and>
          1 < length (NewMissedProofOutputs (LastRevision (header c))) \<and>
          \<not> Value (NewMissedProofOutputs (LastRevision (header c)) ! 1) < sectorCollateral env he (header c) \<and>
          Upload_exchange env he data c w = ((txn, None), he', w') \<and>
          RecordUpload env (c\<lparr>sc_mu := True\<rparr>) txn (MerkleRoot env data)
            (sectorStoragePrice env he (header c)) (sectorBandwidthPrice env he) = (Some e, sc') \<and>
          sc_mu sc' \<longrightarrow>
            Upload env he data w =
              Returns (Inl e, he',
                w'\<lparr>contractSet := (contractSet w)
                    \<lparr>contracts := (contracts (contractSet w))(contractID he \<mapsto> sc'\<lparr>sc_mu := False\<rparr>)\<rparr>\<rparr>) \<and>
            hdb w' = IncrementSuccessfulInteractions (hdb w) (PublicKey (host he))) \<and>
         (NewEditor env h (contractID he) currentHeight w = Returns (Inl e2, w2) \<longrightarrow>
            hdb w2 = (if IsRevisionMismatch env e2 then hdb w
                      else IncrementFailedInteractions (hdb w) (HostPublicKey (header c))))"
  using Upload_exchange_fails [OF assms, of env data txn e he' w']
    Upload_exchange_succeeds [OF assms, of env data txn he' w' "Some e" sc']
    NewEditor_reputation_result [OF assms, of env h currentHeight "Inl e2" w2]
  by (simp add: NewEditor_reputation_def)

theorem Upload_reputation_witness:
  "Upload ex_timeout_env ex_editor [1, 2, 3] (ex_world_with ex_sound_header) =
     Returns (Inl (ErrorsNew ''i/o timeout''), ex_editor,
       (ex_world_with ex_sound_header)
         \<lparr>hdb := ex_hdb 1 0,
          trace := [ExtendDeadline NegotiateSettingsTime, StartRevision,
                    ExtendDeadline NegotiateFileContractRevisionTime,
                    WriteActions [\<lparr>Type = ActionInsert, SectorIndex = 0, Data = [1, 2, 3]\<rparr>],
                    ExtendDeadline Hour]\<rparr>) \<and>
   \<not> IsRevisionMismatch ex_timeout_env (ErrorsNew ''i/o timeout'') \<and>
   Upload ex_disk_env ex_editor [4, 5, 6] (ex_world_with ex_sound_header) =
     Returns (Inl (ErrorsNew ''write failed''), ex_editor,
       (ex_world_with ex_sound_header)
         \<lparr>hdb := ex_hdb 0 1,
          trace := [ExtendDeadline NegotiateSettingsTime, StartRevision,
                    ExtendDeadline NegotiateFileContractRevisionTime,
                    WriteActions [\<lparr>Type = ActionInsert, SectorIndex = 0, Data = [4, 5, 6]\<rparr>],
                    ExtendDeadline TwoMinutes,
                    NegotiateRevision (ex_revision\<lparr>NewMissedProofOutputs :=
                        [\<lparr>Value = 1000, UnlockHash = []\<rparr>, \<lparr>Value = 1000000000000, UnlockHash = []\<rparr>],
                      NewFileMerkleRoot := [4, 5, 6]\<rparr>),
                    ExtendDeadline Hour]\<rparr>) \<and>
   NewEditor ex_handshake_env ex_host [7] 0 (ex_world_with ex_sound_header) =
     Returns (Inl (ErrorsNew ''revision mismatch''),
       (ex_world_with ex_sound_header)
         \<lparr>trace := [DialTCP ''host:9982'', ExtendDeadline NegotiateRecentRevisionTime,
                    WriteRPCReviseContract, VerifyRecentRevision, ConnClose, CloseCloseChan,
                    ExtendDeadline Hour]\<rparr>)"
proof -
  let ?w = "ex_world_with ex_sound_header"
  let ?c = "ex_contract\<lparr>header := ex_sound_header\<rparr>"
  let ?w1 = "?w\<lparr>hdb := ex_hdb 1 0,
          trace := [ExtendDeadline NegotiateSettingsTime, StartRevision,
                    ExtendDeadline NegotiateFileContractRevisionTime,
                    WriteActions [\<lparr>Type = ActionInsert, SectorIndex = 0, Data = [1, 2, 3]\<rparr>],
                    ExtendDeadline Hour]\<rparr>"
  let ?w2 = "?w\<lparr>hdb := ex_hdb 0 1,
          trace := [ExtendDeadline NegotiateSettingsTime, StartRevision,
                    ExtendDeadline NegotiateFileContractRevisionTime,
                    WriteActions [\<lparr>Type = ActionInsert, SectorIndex = 0, Data = [4, 5, 6]\<rparr>],
                    ExtendDeadline TwoMinutes,
                    NegotiateRevision (ex_revision\<lparr>NewMissedProofOutputs :=
                        [\<lparr>Value = 1000, UnlockHash = []\<rparr>, \<lparr>Value = 1000000000000, UnlockHash = []\<rparr>],
                      NewFileMerkleRoot := [4, 5, 6]\<rparr>),
                    ExtendDeadline Hour]\<rparr>"
  have p: "contracts (contractSet ?w) (contractID ex_editor) = Some ?c"
    "\<not> cs_mu (contractSet ?w)" "\<not> sc_mu ?c"
    by (simp_all add: ex_values)
  have x: "Upload_exchange ex_timeout_env ex_editor [1, 2, 3] ?c ?w =
             (([], Some (ErrorsNew ''i/o timeout'')), ex_editor, ?w1)"
    by (simp add: Upload_exchange_def runRevisionIteration_def runRevisionIteration_body_def
        ex_timeout_env_def ex_env_def ex_values ex_hdb_def IncrementFailedInteractions_def
        extendDeadline_def emit_def Let_def fun_eq_iff)
  have v: "\<not> RenterFunds (header ?c) < sectorPrice ex_timeout_env ex_editor (header ?c)"
    "1 < length (NewMissedProofOutputs (LastRevision (header ?c)))"
    "\<not> Value (NewMissedProofOutputs (LastRevision (header ?c)) ! 1)
        < sectorCollateral ex_timeout_env ex_editor (header ?c)"
    by (simp_all add: ex_values ex_timeout_env_def ex_prices)
  have nm: "\<not> IsRevisionMismatch ex_timeout_env (ErrorsNew ''i/o timeout'')"
    by (simp add: ex_timeout_env_def ex_env_def)
  have u: "Upload ex_timeout_env ex_editor [1, 2, 3] ?w =
             Returns (Inl (ErrorsNew ''i/o timeout''), ex_editor, ?w1)"
    using Upload_reputation_follows_exchange [OF p, of ex_timeout_env "[1, 2, 3]" "[]"
        "ErrorsNew ''i/o timeout''" ex_editor ?w1] v x nm
    by simp
  have x2: "Upload_exchange ex_disk_env ex_editor [4, 5, 6] ?c ?w = (([1], None), ex_editor, ?w2)"
    by (simp add: Upload_exchange_def runRevisionIteration_def runRevisionIteration_body_def
        cachedMerkleRoot_def NewCachedTree_def CachedTree_Push_def CachedTree_Root_def
        ex_disk_env_def ex_env_def ex_values ex_hdb_def IncrementSuccessfulInteractions_def
        extendDeadline_def emit_def Let_def fun_eq_iff)
  have v2: "\<not> RenterFunds (header ?c) < sectorPrice ex_disk_env ex_editor (header ?c)"
    "\<not> Value (NewMissedProofOutputs (LastRevision (header ?c)) ! 1)
        < sectorCollateral ex_disk_env ex_editor (header ?c)"
    by (simp_all add: ex_values ex_disk_env_def ex_prices)
  have r2: "RecordUpload ex_disk_env (?c\<lparr>sc_mu := True\<rparr>) [1] (MerkleRoot ex_disk_env [4, 5, 6])
              (sectorStoragePrice ex_disk_env ex_editor (header ?c))
              (sectorBandwidthPrice ex_disk_env ex_editor) =
            (Some (ErrorsNew ''write failed''), ?c\<lparr>sc_mu := True\<rparr>)"
    by (simp add: ex_disk_env_def ex_env_def)
  have same: "?w2\<lparr>contractSet := (contractSet ?w)
                \<lparr>contracts := (contracts (contractSet ?w))(contractID ex_editor \<mapsto> ?c\<lparr>sc_mu := True, sc_mu := False\<rparr>)\<rparr>\<rparr>
              = ?w2"
    by (simp add: ex_values)
  have u2: "Upload ex_disk_env ex_editor [4, 5, 6] ?w =
              Returns (Inl (ErrorsNew ''write failed''), ex_editor, ?w2)"
    using Upload_reputation_follows_exchange [OF p, where env = ex_disk_env and data = "[4, 5, 6]"
        and txn = "[1]" and e = "ErrorsNew ''write failed''" and he' = ex_editor and w' = ?w2
        and sc' = "?c\<lparr>sc_mu := True\<rparr>"] v2 v(2) x2 r2 same
    by simp
  have n: "NewEditor ex_handshake_env ex_host [7] 0 ?w =
     Returns (Inl (ErrorsNew ''revision mismatch''),
       ?w\<lparr>trace := [DialTCP ''host:9982'', ExtendDeadline NegotiateRecentRevisionTime,
                    WriteRPCReviseContract, VerifyRecentRevision, ConnClose, CloseCloseChan,
                    ExtendDeadline Hour]\<rparr>)"
    by (simp add: NewEditor_def Acquire_def Return_def mutex_Lock_def mutex_Unlock_def
        NewEditor_dial_def NewEditor_reputation_def ex_handshake_env_def ex_env_def ex_values
        extendDeadline_def emit_def Let_def)
  show ?thesis
    using u u2 nm n by simp
qed

text \<open>
  The claim counts a failed interaction for every \<open>Upload\<close> that reaches the
  exchange and fails with anything but a revision mismatch. Here the exchange
  succeeds and the file of the contract cannot be written: \<open>Upload\<close> returns the
  error of \<open>RecordUpload\<close>, which is no revision mismatch, after a whole exchange
  with the host; the host database had counted nothing, and after \<open>Upload\<close> it
  has counted one successful interaction and no failed one.
\<close>

theorem Upload_reputation_counterexample:
  "Upload ex_disk_env ex_editor [1, 2, 3] (ex_world_with ex_sound_header) =
     Returns (Inl (ErrorsNew ''write failed''), ex_editor,
       (ex_world_with ex_sound_header)
         \<lparr>hdb := ex_hdb 0 1,
          trace := [ExtendDeadline NegotiateSettingsTime, StartRevision,
                    ExtendDeadline NegotiateFileContractRevisionTime,
                    WriteActions [\<lparr>Type = ActionInsert, SectorIndex = 0, Data = [1, 2, 3]\<rparr>],
                    ExtendDeadline TwoMinutes,
                    NegotiateRevision (ex_revision\<lparr>NewMissedProofOutputs :=
                        [\<lparr>Value = 1000, UnlockHash = []\<rparr>, \<lparr>Value = 1000000000000, UnlockHash = []\<rparr>],
                      NewFileMerkleRoot := [1, 2, 3]\<rparr>),
                    ExtendDeadline Hour]\<rparr>) \<and>
   \<not> IsRevisionMismatch ex_disk_env (ErrorsNew ''write failed'') \<and>
   hdb (ex_world_with ex_sound_header) = ex_hdb 0 0 \<and>
   FailedInteractions (ex_hdb 0 1) (PublicKey (host ex_editor)) = 0 \<and>
   SuccessfulInteractions (ex_hdb 0 1) (PublicKey (host ex_editor)) = 1"
proof -
  let ?w = "ex_world_with ex_sound_header"
  let ?c = "ex_contract\<lparr>header := ex_sound_header\<rparr>"
  let ?w2 = "?w\<lparr>hdb := ex_hdb 0 1,
          trace := [ExtendDeadline NegotiateSettingsTime, StartRevision,
                    ExtendDeadline NegotiateFileContractRevisionTime,
                    WriteActions [\<lparr>Type = ActionInsert, SectorIndex = 0, Data = [1, 2, 3]\<rparr>],
                    ExtendDeadline TwoMinutes,
                    NegotiateRevision (ex_revision\<lparr>NewMissedProofOutputs :=
                        [\<lparr>Value = 1000, UnlockHash = []\<rparr>, \<lparr>Value = 1000000000000, UnlockHash = []\<rparr>],
                      NewFileMerkleRoot := [1, 2, 3]\<rparr>),
                    ExtendDeadline Hour]\<rparr>"
  have p: "contracts (contractSet ?w) (contractID ex_editor) = Some ?c"
    "\<not> cs_mu (contractSet ?w)" "\<not> sc_mu ?c"
    by (simp_all add: ex_values)
  have x: "Upload_exchange ex_disk_env ex_editor [1, 2, 3] ?c ?w = (([1], None), ex_editor, ?w2)"
    by (simp add: Upload_exchange_def runRevisionIteration_def runRevisionIteration_body_def
        cachedMerkleRoot_def NewCachedTree_def CachedTree_Push_def CachedTree_Root_def
        ex_disk_env_def ex_env_def ex_values ex_hdb_def IncrementSuccessfulInteractions_def
        extendDeadline_def emit_def Let_def fun_eq_iff)
  have v: "\<not> RenterFunds (header ?c) < sectorPrice ex_disk_env ex_editor (header ?c)"
    "1 < length (NewMissedProofOutputs (LastRevision (header ?c)))"
    "\<not> Value (NewMissedProofOutputs (LastRevision (header ?c)) ! 1)
        < sectorCollateral ex_disk_env ex_editor (header ?c)"
    by (simp_all add: ex_values ex_disk_env_def ex_prices)
  have r: "RecordUpload ex_disk_env (?c\<lparr>sc_mu := True\<rparr>) [1] (MerkleRoot ex_disk_env [1, 2, 3])
              (sectorStoragePrice ex_disk_env ex_editor (header ?c))
              (sectorBandwidthPrice ex_disk_env ex_editor) =
            (Some (ErrorsNew ''write failed''), ?c\<lparr>sc_mu := True\<rparr>)"
    by (simp add: ex_disk_env_def ex_env_def)
  have l: "sc_mu (?c\<lparr>sc_mu := True\<rparr>)"
    by simp
  have same: "?w2\<lparr>contractSet := (contractSet ?w)
                \<lparr>contracts := (contracts (contractSet ?w))(contractID ex_editor \<mapsto> ?c\<lparr>sc_mu := True, sc_mu := False\<rparr>)\<rparr>\<rparr>
              = ?w2"
    by (simp add: ex_values)
  have u: "Upload ex_disk_env ex_editor [1, 2, 3] ?w =
             Returns (Inl (ErrorsNew ''write failed''), ex_editor, ?w2)"
    using Upload_exchange_succeeds [OF p v x r l] same by simp
  have m: "\<not> IsRevisionMismatch ex_disk_env (ErrorsNew ''write failed'')"
    by (simp add: ex_disk_env_def ex_env_def)
  have h: "hdb ?w = ex_hdb 0 0"
    by (simp add: ex_values ex_hdb_def fun_eq_iff)
  have k: "FailedInteractions (ex_hdb 0 1) (PublicKey (host ex_editor)) = 0"
    "SuccessfulInteractions (ex_hdb 0 1) (PublicKey (host ex_editor)) = 1"
    by (simp_all add: ex_hdb_def ex_values)
  show ?thesis
    using u m h k by simp
qed

subsection \<open>Closing a session\<close>

lemma Close_again:
  assumes "once_done he" "conn_closed he"
  shows "Close he w = Returns (Some closed_conn_error, he, w)"
  using assms by (simp add: Close_def conn_Close_def closed_conn_error_def)

lemma Close_times_again:
  assumes "once_done he" "conn_closed he"
  shows "Close_times n he w = Returns (replicate n (Some closed_conn_error), he, w)"
  using assms by (induction n) (simp_all add: Close_again)

lemma Close_first:
  assumes "\<not> once_done he" "\<not> closeChan_closed he"
  shows "Close he w =
           Returns (if conn_closed he then Some closed_conn_error else None,
                    he\<lparr>once_done := True, closeChan_closed := True, conn_closed := True\<rparr>,
                    w\<lparr>trace := trace w @ teardown @ (if conn_closed he then [] else [ConnClose])\<rparr>)"
proof (cases "conn_closed he")
  case True
  then have "he\<lparr>once_done := True, closeChan_closed := True, conn_closed := True\<rparr> =
             he\<lparr>once_done := True, closeChan_closed := True\<rparr>"
    by simp
  then show ?thesis
    using assms True
    by (simp add: Close_def shutdown_def conn_Close_def closed_conn_error_def teardown_def
        extendDeadline_def emit_def Let_def)
next
  case False
  then show ?thesis
    using assms
    by (simp add: Close_def shutdown_def conn_Close_def closed_conn_error_def teardown_def
        extendDeadline_def emit_def Let_def)
qed

text \<open>
  C6. On a session that has not been closed, any number \<open>n + 1\<close> of calls of
  \<open>Close\<close> leaves exactly one teardown in the record of the session: the deadline,
  the settings exchange, the stop message and the closing of \<open>closeChan\<close>, each
  once, followed by the one closing of the connection when it was still open.
  Every call calls \<open>conn.Close()\<close>; on the closed connection that call closes
  nothing and answers with an error, which is what \<open>Close\<close> returns from the
  second call on.
\<close>

theorem Close_tears_down_once:
  assumes "\<not> once_done he" and "\<not> closeChan_closed he"
  shows "Close_times (Suc n) he w =
           Returns ((if conn_closed he then Some closed_conn_error else None)
                      # replicate n (Some closed_conn_error),
                    he\<lparr>once_done := True, closeChan_closed := True, conn_closed := True\<rparr>,
                    w\<lparr>trace := trace w @ teardown @ (if conn_closed he then [] else [ConnClose])\<rparr>)"
  using assms by (simp add: Close_first Close_times_again)

theorem Close_tears_down_once_witness:
  "Close_times (Suc (Suc (Suc 0))) ex_editor ex_world =
     Returns ([None, Some closed_conn_error, Some closed_conn_error],
              ex_editor\<lparr>once_done := True, closeChan_closed := True, conn_closed := True\<rparr>,
              ex_world\<lparr>trace := [ExtendDeadline NegotiateSettingsTime, VerifySettings,
                                  WriteNegotiationStop, CloseCloseChan, ConnClose]\<rparr>) \<and>
   Close_times (Suc (Suc 0)) (ex_editor\<lparr>conn_closed := True\<rparr>) ex_world =
     Returns ([Some closed_conn_error, Some closed_conn_error],
              ex_editor\<lparr>once_done := True, closeChan_closed := True, conn_closed := True\<rparr>,
              ex_world\<lparr>trace := [ExtendDeadline NegotiateSettingsTime, VerifySettings,
                                  WriteNegotiationStop, CloseCloseChan]\<rparr>)"
  using Close_tears_down_once [of ex_editor "Suc (Suc 0)" ex_world]
    Close_tears_down_once [of "ex_editor\<lparr>conn_closed := True\<rparr>" "Suc 0" ex_world]
  by (simp add: ex_editor_def ex_world_def teardown_def)

subsection \<open>The Merkle root of an upload\<close>

text \<open>
  The initialiser of \<open>sectorHeight\<close> ends with 16 for a sector of \<open>2^22\<close> bytes and
  segments of 64 bytes.
\<close>

lemma sectorHeight_standard: "sectorHeight_init 4194304 64 = Some 16"
  by (simp add: sectorHeight_init_def sectorHeight_loop.simps)

text \<open>
  The cached tree against the rebuilt tree. A room larger than needed gives the
  same root; a full block followed by a block that is not larger joins into one
  tree; \<open>joinAllSubTrees\<close> keeps what the stack stands for and leaves the heights
  increasing from the top down; \<open>Root\<close> of such a stack is the rebuilt root.
\<close>

lemma tree_root_fits: "length xs \<le> 2 ^ k \<Longrightarrow> tree_root node (k + d) xs = tree_root node k xs"
proof (induction d)
  case 0
  then show ?case by simp
next
  case (Suc d)
  have "(2::nat) ^ k \<le> 2 ^ (k + d)"
    by simp
  then have "length xs \<le> 2 ^ (k + d)"
    using Suc.prems by (rule le_trans [rotated])
  with Suc show ?case by simp
qed

lemma rebuilt_root_eq:
  assumes "length xs \<le> 2 ^ k"
  shows "rebuilt_root node xs = tree_root node k xs"
proof (cases "k \<le> length xs")
  case True
  then have "tree_root node (k + (length xs - k)) xs = tree_root node k xs"
    using assms by (intro tree_root_fits)
  then show ?thesis using True by (simp add: rebuilt_root_def)
next
  case False
  have "length xs \<le> 2 ^ length xs"
    by (simp add: less_imp_le)
  then have "tree_root node (length xs + (k - length xs)) xs = tree_root node (length xs) xs"
    by (rule tree_root_fits)
  then show ?thesis using False by (simp add: rebuilt_root_def)
qed

lemma tree_root_join:
  assumes "length b = 2 ^ k" "ys \<noteq> []" "length ys \<le> 2 ^ k"
  shows "tree_root node (Suc k) (b @ ys) = node (tree_root node k b) (tree_root node k ys)"
  using assms by simp

lemma rebuilt_root_join:
  assumes "length b = 2 ^ k" "ys \<noteq> []" "length ys \<le> 2 ^ k"
  shows "node (tree_root node k b) (rebuilt_root node ys) = rebuilt_root node (b @ ys)"
proof -
  have "length (b @ ys) \<le> 2 ^ Suc k"
    using assms by simp
  then have "rebuilt_root node (b @ ys) = tree_root node (Suc k) (b @ ys)"
    by (rule rebuilt_root_eq)
  moreover have "rebuilt_root node ys = tree_root node k ys"
    using assms(3) by (rule rebuilt_root_eq)
  ultimately show ?thesis
    using tree_root_join [OF assms] by simp
qed

lemma covers_heights: "covers node c st xs \<Longrightarrow> \<forall>h \<in> set (map fst st). c \<le> h"
  by (induction rule: covers.induct) auto

lemma join_covers:
  "covers node c ((h0, s0) # st) xs \<Longrightarrow> covers node c (joinAllSubTrees node ((h0, s0) # st)) xs"
proof (induction st arbitrary: h0 s0 xs)
  case Nil
  then show ?case by simp
next
  case (Cons a st)
  obtain h2 s2 where a: "a = (h2, s2)" by (cases a)
  show ?case
  proof (cases "h0 = h2")
    case False
    then show ?thesis using Cons.prems a by simp
  next
    case True
    from Cons.prems a obtain xs1 b1 where
      x1: "xs = xs1 @ b1" "s0 = tree_root node (h0 - c) b1" "length b1 = 2 ^ (h0 - c)" "c \<le> h0"
        "covers node c ((h2, s2) # st) xs1"
      by (auto elim: covers_ConsE)
    from x1(5) obtain xs2 b2 where
      x2: "xs1 = xs2 @ b2" "s2 = tree_root node (h2 - c) b2" "length b2 = 2 ^ (h2 - c)" "c \<le> h2"
        "covers node c st xs2"
      by (auto elim: covers_ConsE)
    have b1: "b1 \<noteq> []" "length b1 \<le> 2 ^ (h2 - c)"
      using x1(3) True by auto
    have "node s2 s0 = tree_root node (Suc (h2 - c)) (b2 @ b1)"
      using tree_root_join [OF x2(3) b1] x1(2) x2(2) True by simp
    moreover have "Suc (h2 - c) = Suc h2 - c"
      using x2(4) by simp
    moreover have "length (b2 @ b1) = 2 ^ (Suc h2 - c)"
      using x1(3) x2(3) x2(4) True by (simp add: Suc_diff_le)
    ultimately have "covers node c ((Suc h2, node s2 s0) # st) (xs2 @ (b2 @ b1))"
      using covers_Cons [OF x2(5), of "Suc h2" "b2 @ b1"] x2(4) by simp
    then have "covers node c (joinAllSubTrees node ((Suc h2, node s2 s0) # st)) (xs2 @ (b2 @ b1))"
      by (rule Cons.IH)
    then show ?thesis using True a x1(1) x2(1) by simp
  qed
qed

lemma join_sorted:
  "sorted_wrt (<) (map fst st) \<Longrightarrow> \<forall>h \<in> set (map fst st). h0 \<le> h \<Longrightarrow>
   sorted_wrt (<) (map fst (joinAllSubTrees node ((h0, s0) # st)))"
proof (induction st arbitrary: h0 s0)
  case Nil
  then show ?case by simp
next
  case (Cons a st)
  obtain h2 s2 where a: "a = (h2, s2)" by (cases a)
  show ?case
  proof (cases "h0 = h2")
    case True
    have "sorted_wrt (<) (map fst st)" "\<forall>h \<in> set (map fst st). Suc h2 \<le> h"
      using Cons.prems(1) a by auto
    then have "sorted_wrt (<) (map fst (joinAllSubTrees node ((Suc h2, node s2 s0) # st)))"
      by (rule Cons.IH)
    then show ?thesis using True a by simp
  next
    case False
    then have "h0 < h2" using Cons.prems(2) a by auto
    then show ?thesis using False Cons.prems a by fastforce
  qed
qed

lemma root_fold:
  "covers node c st xs \<Longrightarrow> sorted_wrt (<) (map fst st) \<Longrightarrow> ys \<noteq> [] \<Longrightarrow>
   \<forall>h \<in> set (map fst st). length ys \<le> 2 ^ (h - c) \<Longrightarrow>
   foldl (\<lambda>current (h', s'). node s' current) (rebuilt_root node ys) st = rebuilt_root node (xs @ ys)"
proof (induction arbitrary: ys rule: covers.induct)
  case covers_Nil
  then show ?case by simp
next
  case (covers_Cons st xs h b)
  have j: "node (tree_root node (h - c) b) (rebuilt_root node ys) = rebuilt_root node (b @ ys)"
    using covers_Cons.hyps(3) covers_Cons.prems(2,3) by (intro rebuilt_root_join) auto
  have s: "sorted_wrt (<) (map fst st)"
    using covers_Cons.prems(1) by simp
  have "\<forall>h' \<in> set (map fst st). length (b @ ys) \<le> 2 ^ (h' - c)"
  proof
    fix h' assume m: "h' \<in> set (map fst st)"
    then have "h < h'" using covers_Cons.prems(1) by auto
    then have "Suc (h - c) \<le> h' - c" using covers_Cons.hyps(2) by simp
    then have "(2::nat) ^ Suc (h - c) \<le> 2 ^ (h' - c)"
      by (rule power_increasing) simp
    moreover have "length (b @ ys) \<le> 2 ^ Suc (h - c)"
      using covers_Cons.hyps(3) covers_Cons.prems(3) by simp
    ultimately show "length (b @ ys) \<le> 2 ^ (h' - c)" by simp
  qed
  then have "foldl (\<lambda>current (h', s'). node s' current) (rebuilt_root node (b @ ys)) st =
             rebuilt_root node (xs @ (b @ ys))"
    using covers_Cons.IH [OF s, of "b @ ys"] covers_Cons.prems(2) by simp
  then show ?case using j by simp
qed

lemma Root_rebuilt:
  assumes "covers node c (subTrees t) xs" "sorted_wrt (<) (map fst (subTrees t))"
  shows "CachedTree_Root node t = rebuilt_root node xs"
proof (cases "subTrees t")
  case Nil
  then have "xs = []" using assms(1) by (auto elim: covers_NilE)
  then show ?thesis using Nil by (simp add: CachedTree_Root_def rebuilt_root_def)
next
  case (Cons a st)
  obtain h s where a: "a = (h, s)" by (cases a)
  from assms(1) Cons a obtain xs1 b where
    x: "xs = xs1 @ b" "s = tree_root node (h - c) b" "length b = 2 ^ (h - c)" "c \<le> h"
       "covers node c st xs1"
    by (auto elim: covers_ConsE)
  have sb: "s = rebuilt_root node b"
    using x(2,3) rebuilt_root_eq [of b "h - c" node] by simp
  have srt: "sorted_wrt (<) (map fst st)" and lt: "\<forall>h' \<in> set (map fst st). h < h'"
    using assms(2) Cons a by auto
  have "\<forall>h' \<in> set (map fst st). length b \<le> 2 ^ (h' - c)"
  proof
    fix h' assume "h' \<in> set (map fst st)"
    then have "h - c \<le> h' - c" using lt by auto
    then have "(2::nat) ^ (h - c) \<le> 2 ^ (h' - c)" by (rule power_increasing) simp
    then show "length b \<le> 2 ^ (h' - c)" using x(3) by simp
  qed
  moreover have "b \<noteq> []" using x(3) by auto
  ultimately have "foldl (\<lambda>current (h', s'). node s' current) (rebuilt_root node b) st =
                   rebuilt_root node (xs1 @ b)"
    using root_fold [OF x(5) srt] by simp
  then show ?thesis using Cons a sb x(1) by (simp add: CachedTree_Root_def)
qed

lemma Push_invariant:
  assumes "covers node (cachedNodeHeight t) (subTrees t) xs" "sorted_wrt (<) (map fst (subTrees t))"
  shows "covers node (cachedNodeHeight t) (subTrees (CachedTree_Push node t x)) (xs @ [x]) \<and>
         sorted_wrt (<) (map fst (subTrees (CachedTree_Push node t x))) \<and>
         cachedNodeHeight (CachedTree_Push node t x) = cachedNodeHeight t"
proof -
  let ?c = "cachedNodeHeight t"
  have "covers node ?c ((?c, tree_root node (?c - ?c) [x]) # subTrees t) (xs @ [x])"
    using assms(1) by (intro covers_Cons) simp_all
  then have "covers node ?c ((?c, x) # subTrees t) (xs @ [x])"
    by simp
  then have "covers node ?c (joinAllSubTrees node ((?c, x) # subTrees t)) (xs @ [x])"
    by (rule join_covers)
  moreover have "sorted_wrt (<) (map fst (joinAllSubTrees node ((?c, x) # subTrees t)))"
    using assms(2) covers_heights [OF assms(1)] by (rule join_sorted)
  ultimately show ?thesis
    by (simp add: CachedTree_Push_def)
qed

lemma pushed_invariant:
  "covers node (unat c) (subTrees (foldl (CachedTree_Push node) (NewCachedTree c) xs)) xs \<and>
   sorted_wrt (<) (map fst (subTrees (foldl (CachedTree_Push node) (NewCachedTree c) xs))) \<and>
   cachedNodeHeight (foldl (CachedTree_Push node) (NewCachedTree c) xs) = unat c"
proof (induction xs rule: rev_induct)
  case Nil
  then show ?case by (simp add: NewCachedTree_def covers_Nil)
next
  case (snoc x xs)
  let ?t = "foldl (CachedTree_Push node) (NewCachedTree c) xs"
  have "covers node (cachedNodeHeight ?t) (subTrees ?t) xs" "sorted_wrt (<) (map fst (subTrees ?t))"
    using snoc by simp_all
  then have "covers node (cachedNodeHeight ?t) (subTrees (CachedTree_Push node ?t x)) (xs @ [x]) \<and>
             sorted_wrt (<) (map fst (subTrees (CachedTree_Push node ?t x))) \<and>
             cachedNodeHeight (CachedTree_Push node ?t x) = cachedNodeHeight ?t"
    by (rule Push_invariant)
  then show ?case
    using snoc by simp
qed

lemma pushed_Root:
  "CachedTree_Root node (foldl (CachedTree_Push node) (NewCachedTree c) xs) = rebuilt_root node xs"
  using pushed_invariant [of node c xs] by (intro Root_rebuilt) auto

lemma tree_root_collision:
  "length xs = length ys \<Longrightarrow> length xs \<le> 2 ^ k \<Longrightarrow> xs \<noteq> ys \<Longrightarrow>
   tree_root node k xs = tree_root node k ys \<Longrightarrow>
   \<exists>a b a' b'. (a, b) \<noteq> (a', b') \<and> node a b = node a' b'"
proof (induction k arbitrary: xs ys)
  case 0
  then show ?case by (cases xs; cases ys) auto
next
  case (Suc k)
  show ?case
  proof (cases "length xs \<le> 2 ^ k")
    case True
    then show ?thesis using Suc by auto
  next
    case False
    let ?l = "take (2 ^ k)" and ?r = "drop (2 ^ k)"
    from False Suc.prems have e: "node (tree_root node k (?l xs)) (tree_root node k (?r xs)) =
                                  node (tree_root node k (?l ys)) (tree_root node k (?r ys))"
      by simp
    show ?thesis
    proof (cases "(tree_root node k (?l xs), tree_root node k (?r xs)) =
                  (tree_root node k (?l ys), tree_root node k (?r ys))")
      case False
      then show ?thesis using e by blast
    next
      case True
      have "?l xs \<noteq> ?l ys \<or> ?r xs \<noteq> ?r ys"
        using Suc.prems(3) by (metis append_take_drop_id)
      then show ?thesis
      proof
        assume d: "?l xs \<noteq> ?l ys"
        have "length (?l xs) = length (?l ys)" "length (?l xs) \<le> 2 ^ k"
          using Suc.prems(1) by simp_all
        then show ?thesis using Suc.IH [OF _ _ d] True by simp
      next
        assume d: "?r xs \<noteq> ?r ys"
        have "length (?r xs) = length (?r ys)" "length (?r xs) \<le> 2 ^ k"
          using Suc.prems(1,2) by simp_all
        then show ?thesis using Suc.IH [OF _ _ d] True by simp
      qed
    qed
  qed
qed

text \<open>
  C7. For every sequence of roots and one more hash, the root of the tree that
  holds the sequence after one more \<open>Push\<close> is the root of the whole tree rebuilt
  from scratch over the extended sequence, and \<open>cachedMerkleRoot\<close> is that rebuilt
  root for every sequence: it depends on the sequence alone, not on the height the
  tree was made with. \<open>Upload\<close> sends the revision with this root over the
  extended manifest. The root depends on the order: two different sequences of the
  same length have the same root only where the node hash collides.
\<close>

theorem cachedMerkleRoot_incremental:
  "CachedTree_Root (nodeSum env)
     (CachedTree_Push (nodeSum env)
        (foldl (CachedTree_Push (nodeSum env)) (NewCachedTree (sectorHeight env)) roots) h) =
     rebuilt_root (nodeSum env) (roots @ [h]) \<and>
   cachedMerkleRoot env roots = rebuilt_root (nodeSum env) roots \<and>
   Upload_exchange env he data sc w =
     runRevisionIteration env he
       [\<lparr>Type = ActionInsert, SectorIndex = of_nat (length (merkleRoots sc)), Data = data\<rparr>]
       (SecretKey (header sc))
       (newUploadRevision env (LastRevision (header sc))
          (rebuilt_root (nodeSum env) (merkleRoots sc @ [MerkleRoot env data]))
          (sectorPrice env he (header sc)) (sectorCollateral env he (header sc)))
       (merkleRoots sc @ [MerkleRoot env data]) w \<and>
   (length xs = length ys \<and> xs \<noteq> ys \<and> cachedMerkleRoot env xs = cachedMerkleRoot env ys \<longrightarrow>
      (\<exists>a b a' b'. (a, b) \<noteq> (a', b') \<and> nodeSum env a b = nodeSum env a' b'))"
proof -
  have r: "\<And>zs. cachedMerkleRoot env zs = rebuilt_root (nodeSum env) zs"
    by (simp add: cachedMerkleRoot_def pushed_Root)
  have i: "CachedTree_Root (nodeSum env)
     (CachedTree_Push (nodeSum env)
        (foldl (CachedTree_Push (nodeSum env)) (NewCachedTree (sectorHeight env)) roots) h) =
     rebuilt_root (nodeSum env) (roots @ [h])"
    using pushed_Root [of "nodeSum env" "sectorHeight env" "roots @ [h]"] by simp
  have u: "Upload_exchange env he data sc w =
     runRevisionIteration env he
       [\<lparr>Type = ActionInsert, SectorIndex = of_nat (length (merkleRoots sc)), Data = data\<rparr>]
       (SecretKey (header sc))
       (newUploadRevision env (LastRevision (header sc))
          (rebuilt_root (nodeSum env) (merkleRoots sc @ [MerkleRoot env data]))
          (sectorPrice env he (header sc)) (sectorCollateral env he (header sc)))
       (merkleRoots sc @ [MerkleRoot env data]) w"
    by (simp add: Upload_exchange_def Let_def r)
  have o: "length xs = length ys \<Longrightarrow> xs \<noteq> ys \<Longrightarrow> cachedMerkleRoot env xs = cachedMerkleRoot env ys \<Longrightarrow>
           \<exists>a b a' b'. (a, b) \<noteq> (a', b') \<and> nodeSum env a b = nodeSum env a' b'"
  proof -
    assume l: "length xs = length ys" and d: "xs \<noteq> ys"
      and e: "cachedMerkleRoot env xs = cachedMerkleRoot env ys"
    have b: "length xs \<le> 2 ^ length xs"
      by (simp add: less_imp_le)
    have "tree_root (nodeSum env) (length xs) xs = tree_root (nodeSum env) (length xs) ys"
      using e l by (simp add: r rebuilt_root_def)
    with l b d show ?thesis
      by (rule tree_root_collision)
  qed
  show ?thesis
    using r i u o by blast
qed

theorem cachedMerkleRoot_incremental_witness:
  "CachedTree_Root (nodeSum ex_env)
     (CachedTree_Push (nodeSum ex_env)
        (foldl (CachedTree_Push (nodeSum ex_env)) (NewCachedTree (sectorHeight ex_env)) [[5], [6]]) [7]) =
     [1, 1, 5, 6, 7] \<and>
   rebuilt_root (nodeSum ex_env) [[5], [6], [7]] = [1, 1, 5, 6, 7] \<and>
   cachedMerkleRoot ex_env [[5], [6, 7]] = [1, 5, 6, 7] \<and>
   cachedMerkleRoot ex_env [[5, 6], [7]] = [1, 5, 6, 7] \<and>
   cachedMerkleRoot ex_env [[6, 7], [5]] = [1, 6, 7, 5] \<and>
   (\<exists>a b a' b'. (a, b) \<noteq> (a', b') \<and> nodeSum ex_env a b = nodeSum ex_env a' b')"
proof -
  have v: "rebuilt_root (nodeSum ex_env) [[5], [6], [7]] = [1, 1, 5, 6, 7]"
    "rebuilt_root (nodeSum ex_env) [[5], [6, 7]] = [1, 5, 6, 7]"
    "rebuilt_root (nodeSum ex_env) [[5, 6], [7]] = [1, 5, 6, 7]"
    "rebuilt_root (nodeSum ex_env) [[6, 7], [5]] = [1, 6, 7, 5]"
    by (simp_all add: rebuilt_root_def ex_env_def)
  show ?thesis
    using cachedMerkleRoot_incremental
        [where env = ex_env and roots = "[[5], [6]]" and h = "[7]" and xs = "[[5], [6, 7]]"
           and ys = "[[5, 6], [7]]"]
      cachedMerkleRoot_incremental [where env = ex_env and roots = "[[6, 7], [5]]"]
      cachedMerkleRoot_incremental [where env = ex_env and roots = "[[5], [6, 7]]"]
      cachedMerkleRoot_incremental [where env = ex_env and roots = "[[5, 6], [7]]"] v
    by simp
qed

subsection \<open>Loading the contract set and replaying the journal\<close>

lemma Ext_scan_shape: "Ext_scan sep cs suffix = [] \<or> hd (Ext_scan sep cs suffix) = CHR ''.''"
  by (induction cs arbitrary: suffix) auto

lemma Ext_never_contract: "Ext sep path \<noteq> ''contract''"
  using Ext_scan_shape [of sep "rev path" "[]"] by (auto simp: Ext_def)

lemma load_contracts_skips_all: "load_contracts env wal dirNames m = Inr m"
  by (induction dirNames) (simp_all add: Ext_never_contract)

lemma dom_upd_present: "m k = Some c \<Longrightarrow> dom (m(k \<mapsto> c')) = dom m"
  by auto

lemma applyRecoveredUpdate_dom:
  "dom (snd (applyRecoveredUpdate env m update)) = dom m"
  by (simp add: applyRecoveredUpdate_def dom_upd_present insert_absorb domI
      split: sum.split option.split prod.split)

lemma applyRecoveredUpdates_dom:
  "dom (snd (applyRecoveredUpdates env m updates)) = dom m"
proof (induction updates arbitrary: m)
  case Nil
  then show ?case by simp
next
  case (Cons update updates)
  obtain err m' where s: "applyRecoveredUpdate env m update = (err, m')"
    by (cases "applyRecoveredUpdate env m update")
  then have d: "dom m' = dom m"
    using applyRecoveredUpdate_dom [of env m update] by simp
  show ?case
    using s d Cons.IH [of m'] by (cases err) simp_all
qed

lemma applyRecoveredUpdates_empty:
  assumes "applyRecoveredUpdates env Map.empty updates = (err, m')"
  shows "m' = Map.empty"
  using applyRecoveredUpdates_dom [of env Map.empty updates] assms by simp

text \<open>
  C4 fails on the code. \<open>NewContractSet\<close> keeps a name of the directory when
  \<open>filepath.Ext\<close> of it is \<open>contract\<close>; an extension is empty or starts with a
  dot, so every name is skipped, no file is parsed, and the set that a successful
  construction returns has no contract.
\<close>

theorem NewContractSet_loads_no_contract:
  "NewContractSet env dir = Inr cs \<longrightarrow> contracts cs = Map.empty"
  by (auto simp: NewContractSet_def load_contracts_skips_all
      split: option.splits sum.splits prod.splits if_splits
      dest: applyRecoveredUpdates_empty)

theorem NewContractSet_loads_no_contract_witness:
  "Readdirnames ex_env ''renter/contracts'' = Inr [''a.contract''] \<and>
   loadSafeContract ex_env ''a.contract'' = Inr ex_contract \<and>
   ID (Metadata ex_env ex_contract) = [9] \<and>
   NewContractSet ex_env ''renter/contracts'' = Inr \<lparr>contracts = Map.empty, cs_wal = 0, cs_mu = False\<rparr> \<and>
   Ext (IsPathSeparator ex_env) ''a.contract'' = ''.contract''"
  using NewContractSet_loads_no_contract
          [of ex_env "''renter/contracts''" "\<lparr>contracts = Map.empty, cs_wal = 0, cs_mu = False\<rparr>"]
  by (simp add: NewContractSet_def load_contracts_skips_all ex_env_def ex_Metadata_def
      ex_contract_def ex_header_def Ext_def)

lemma applyRecoveredUpdate_absent_header:
  assumes "Name u = updateNameSetHeader env"
    and "Unmarshal_updateSetHeader env (Instructions u) = Inr h"
    and "m (ush_ID h) = None"
  shows "applyRecoveredUpdate env m u = (Some (ErrorsNew ''no such contract''), m)"
  using assms by (simp add: applyRecoveredUpdate_def)

lemma applyRecoveredUpdate_absent_root:
  assumes "Name u \<noteq> updateNameSetHeader env" and "Name u = updateNameSetRoot env"
    and "Unmarshal_updateSetRoot env (Instructions u) = Inr r"
    and "m (usr_ID r) = None"
  shows "applyRecoveredUpdate env m u = (Some (ErrorsNew ''no such contract''), m)"
  using assms by (simp add: applyRecoveredUpdate_def)

text \<open>A record that fails on every map with the domain of \<open>m\<close> makes the replay fail.\<close>

lemma replay_fails_at:
  assumes "u \<in> set updates"
    and "\<And>m'. dom m' = dom m \<Longrightarrow> fst (applyRecoveredUpdate env m' u) \<noteq> None"
  shows "fst (applyRecoveredUpdates env m updates) \<noteq> None"
  using assms
proof (induction updates arbitrary: m)
  case Nil
  then show ?case by simp
next
  case (Cons x updates)
  obtain err m1 where s: "applyRecoveredUpdate env m x = (err, m1)"
    by (cases "applyRecoveredUpdate env m x")
  then have d: "dom m1 = dom m"
    using applyRecoveredUpdate_dom [of env m x] by simp
  show ?case
  proof (cases err)
    case (Some e)
    then show ?thesis using s by simp
  next
    case None
    have "u \<noteq> x"
      using Cons.prems(2) [of m] s None by auto
    then have "u \<in> set updates"
      using Cons.prems(1) by simp
    moreover have "\<And>m'. dom m' = dom m1 \<Longrightarrow> fst (applyRecoveredUpdate env m' u) \<noteq> None"
      using Cons.prems(2) d by simp
    ultimately have "fst (applyRecoveredUpdates env m1 updates) \<noteq> None"
      by (rule Cons.IH)
    then show ?thesis using s None by simp
  qed
qed

lemma same_dom_absent: "dom m' = dom m \<Longrightarrow> m k = None \<Longrightarrow> m' k = None"
  by (metis domIff)

lemma replay_absent_header_fails:
  assumes "u \<in> set updates" and "Name u = updateNameSetHeader env"
    and "Unmarshal_updateSetHeader env (Instructions u) = Inr h"
    and "m (ush_ID h) = None"
  shows "fst (applyRecoveredUpdates env m updates) \<noteq> None"
proof (rule replay_fails_at [OF assms(1)])
  fix m' :: "FileContractID \<rightharpoonup> SafeContract"
  assume "dom m' = dom m"
  then have "m' (ush_ID h) = None"
    using assms(4) by (rule same_dom_absent)
  then show "fst (applyRecoveredUpdate env m' u) \<noteq> None"
    using applyRecoveredUpdate_absent_header [OF assms(2,3)] by simp
qed

lemma replay_absent_root_fails:
  assumes "u \<in> set updates" and "Name u \<noteq> updateNameSetHeader env"
    and "Name u = updateNameSetRoot env"
    and "Unmarshal_updateSetRoot env (Instructions u) = Inr r"
    and "m (usr_ID r) = None"
  shows "fst (applyRecoveredUpdates env m updates) \<noteq> None"
proof (rule replay_fails_at [OF assms(1)])
  fix m' :: "FileContractID \<rightharpoonup> SafeContract"
  assume "dom m' = dom m"
  then have "m' (usr_ID r) = None"
    using assms(5) by (rule same_dom_absent)
  then show "fst (applyRecoveredUpdate env m' u) \<noteq> None"
    using applyRecoveredUpdate_absent_root [OF assms(2,3,4)] by simp
qed

lemma NewContractSet_replay_error:
  assumes "os_Open env dir = None" and "dir_Stat env dir = Inr True"
    and "writeaheadlog_New env (filepath_Join env dir ''contractset.log'') = Inr (updates, wal)"
    and "Readdirnames env dir = Inr dirNames"
    and "load_contracts env wal dirNames Map.empty = Inr m"
    and "fst (applyRecoveredUpdates env m updates) = Some err"
  shows "NewContractSet env dir = Inl err"
  using assms by (auto simp: NewContractSet_def split: prod.split)

lemma replay_present_header:
  assumes "Name u = updateNameSetHeader env"
    and "Unmarshal_updateSetHeader env (Instructions u) = Inr h"
    and "m (ush_ID h) = Some c"
    and "applySetHeader env c (ush_Header h) = (None, c')"
    and "file_Sync env (sc_f c') = (err, f')"
  shows "applyRecoveredUpdates env m (u # rest) =
           (case err of
              None \<Rightarrow> applyRecoveredUpdates env (m(ush_ID h \<mapsto> c'\<lparr>sc_f := f'\<rparr>)) rest
            | Some e \<Rightarrow> (Some e, m(ush_ID h \<mapsto> c'\<lparr>sc_f := f'\<rparr>)))"
  using assms by (simp add: applyRecoveredUpdate_def split: option.split)

lemma replay_present_root:
  assumes "Name u \<noteq> updateNameSetHeader env" and "Name u = updateNameSetRoot env"
    and "Unmarshal_updateSetRoot env (Instructions u) = Inr r"
    and "m (usr_ID r) = Some c"
    and "applySetRoot env c (usr_Root r) (usr_Index r) = (None, c')"
    and "file_Sync env (sc_f c') = (err, f')"
  shows "applyRecoveredUpdates env m (u # rest) =
           (case err of
              None \<Rightarrow> applyRecoveredUpdates env (m(usr_ID r \<mapsto> c'\<lparr>sc_f := f'\<rparr>)) rest
            | Some e \<Rightarrow> (Some e, m(usr_ID r \<mapsto> c'\<lparr>sc_f := f'\<rparr>)))"
  using assms by (simp add: applyRecoveredUpdate_def split: option.split)

text \<open>
  C5. A record of the journal named "set header" or "set sector root" that decodes
  to an identifier absent from the loaded map makes the replay end with an error,
  wherever it stands in the sequence, and an error of the replay is the error of
  \<open>NewContractSet\<close>. For a record whose identifier is present and whose payload
  the contract accepts, the file of the contract is synced next: when the sync
  succeeds the replay goes on with the following records on the contract as applied
  and synced, and when it fails the replay ends with its error.
\<close>

theorem replay_absent_fails_present_flushes:
  "(u \<in> set updates \<and> Name u = updateNameSetHeader env \<and>
    Unmarshal_updateSetHeader env (Instructions u) = Inr h \<and> m (ush_ID h) = None \<longrightarrow>
      fst (applyRecoveredUpdates env m updates) \<noteq> None \<and>
      applyRecoveredUpdates env m (u # rest) = (Some (ErrorsNew ''no such contract''), m)) \<and>
   (u \<in> set updates \<and> Name u \<noteq> updateNameSetHeader env \<and> Name u = updateNameSetRoot env \<and>
    Unmarshal_updateSetRoot env (Instructions u) = Inr r \<and> m (usr_ID r) = None \<longrightarrow>
      fst (applyRecoveredUpdates env m updates) \<noteq> None \<and>
      applyRecoveredUpdates env m (u # rest) = (Some (ErrorsNew ''no such contract''), m)) \<and>
   (os_Open env dir = None \<and> dir_Stat env dir = Inr True \<and>
    writeaheadlog_New env (filepath_Join env dir ''contractset.log'') = Inr (updates, wal) \<and>
    Readdirnames env dir = Inr dirNames \<and> load_contracts env wal dirNames Map.empty = Inr m \<and>
    fst (applyRecoveredUpdates env m updates) = Some err \<longrightarrow>
      NewContractSet env dir = Inl err) \<and>
   (Name u = updateNameSetHeader env \<and>
    Unmarshal_updateSetHeader env (Instructions u) = Inr h \<and> m (ush_ID h) = Some c \<and>
    applySetHeader env c (ush_Header h) = (None, c') \<and> file_Sync env (sc_f c') = (err', f') \<longrightarrow>
      applyRecoveredUpdates env m (u # rest) =
        (case err' of
           None \<Rightarrow> applyRecoveredUpdates env (m(ush_ID h \<mapsto> c'\<lparr>sc_f := f'\<rparr>)) rest
         | Some e \<Rightarrow> (Some e, m(ush_ID h \<mapsto> c'\<lparr>sc_f := f'\<rparr>)))) \<and>
   (Name u \<noteq> updateNameSetHeader env \<and> Name u = updateNameSetRoot env \<and>
    Unmarshal_updateSetRoot env (Instructions u) = Inr r \<and> m (usr_ID r) = Some c \<and>
    applySetRoot env c (usr_Root r) (usr_Index r) = (None, c') \<and>
    file_Sync env (sc_f c') = (err', f') \<longrightarrow>
      applyRecoveredUpdates env m (u # rest) =
        (case err' of
           None \<Rightarrow> applyRecoveredUpdates env (m(usr_ID r \<mapsto> c'\<lparr>sc_f := f'\<rparr>)) rest
         | Some e \<Rightarrow> (Some e, m(usr_ID r \<mapsto> c'\<lparr>sc_f := f'\<rparr>))))"
proof -
  have first_header:
    "Name u = updateNameSetHeader env \<Longrightarrow> Unmarshal_updateSetHeader env (Instructions u) = Inr h \<Longrightarrow>
     m (ush_ID h) = None \<Longrightarrow>
     applyRecoveredUpdates env m (u # rest) = (Some (ErrorsNew ''no such contract''), m)"
    by (simp add: applyRecoveredUpdate_absent_header)
  have first_root:
    "Name u \<noteq> updateNameSetHeader env \<Longrightarrow> Name u = updateNameSetRoot env \<Longrightarrow>
     Unmarshal_updateSetRoot env (Instructions u) = Inr r \<Longrightarrow> m (usr_ID r) = None \<Longrightarrow>
     applyRecoveredUpdates env m (u # rest) = (Some (ErrorsNew ''no such contract''), m)"
    by (simp add: applyRecoveredUpdate_absent_root)
  show ?thesis
    using replay_absent_header_fails [of u updates env h m]
      replay_absent_root_fails [of u updates env r m]
      NewContractSet_replay_error [of env dir updates wal dirNames m err]
      replay_present_header [of u env h m c c' err' f' rest]
      replay_present_root [of u env r m c c' err' f' rest]
      first_header first_root
    by blast
qed

theorem replay_witness:
  "fst (applyRecoveredUpdates ex_env [[7] \<mapsto> ex_contract] [ex_update_header, ex_update_absent]) \<noteq> None \<and>
   applyRecoveredUpdates ex_env [[7] \<mapsto> ex_contract] [ex_update_absent_header, ex_update_root] =
     (Some (ErrorsNew ''no such contract''), [[7] \<mapsto> ex_contract]) \<and>
   NewContractSet ex_journal_env ''renter/contracts'' = Inl (ErrorsNew ''no such contract'') \<and>
   applyRecoveredUpdates ex_env [[7] \<mapsto> ex_contract] [ex_update_header, ex_update_root] =
     (None,
      [[7] \<mapsto> ex_contract
         \<lparr>header := \<lparr>LastRevision = ex_revision, RenterFunds = 2, SecretKey = [], HostPublicKey = [7]\<rparr>,
          merkleRoots := [[1, 2]],
          sc_f := \<lparr>written = 2, flushed = 2\<rparr>\<rparr>])"
proof -
  let ?m = "[[7] \<mapsto> ex_contract]"
  let ?h = "\<lparr>ush_ID = [7], ush_Header =
              \<lparr>LastRevision = ex_revision, RenterFunds = 2, SecretKey = [], HostPublicKey = [7]\<rparr>\<rparr>"
  let ?c1 = "ex_contract\<lparr>header := ush_Header ?h, sc_f := \<lparr>written = 1, flushed = 0\<rparr>\<rparr>"
  let ?f1 = "\<lparr>written = 1, flushed = 1\<rparr>"
  let ?r = "\<lparr>usr_ID = [7], usr_Root = [1, 2], usr_Index = 0\<rparr>"
  let ?c2 = "ex_contract\<lparr>header := ush_Header ?h, merkleRoots := [[1, 2]],
               sc_f := \<lparr>written = 2, flushed = 1\<rparr>\<rparr>"
  let ?f2 = "\<lparr>written = 2, flushed = 2\<rparr>"
  have absent: "fst (applyRecoveredUpdates ex_env ?m [ex_update_header, ex_update_absent]) \<noteq> None"
    using replay_absent_fails_present_flushes
      [where u = ex_update_absent and updates = "[ex_update_header, ex_update_absent]"
         and env = ex_env and m = ?m and r = "\<lparr>usr_ID = [8], usr_Root = [1, 2], usr_Index = 0\<rparr>"]
    by (simp add: ex_update_absent_def ex_env_def ex_Unmarshal_updateSetRoot_def)
  have absent_header:
    "applyRecoveredUpdates ex_env ?m [ex_update_absent_header, ex_update_root] =
       (Some (ErrorsNew ''no such contract''), ?m)"
    using replay_absent_fails_present_flushes
      [where u = ex_update_absent_header and updates = "[ex_update_absent_header]"
         and env = ex_env and m = ?m and rest = "[ex_update_root]"
         and h = "\<lparr>ush_ID = [8], ush_Header =
              \<lparr>LastRevision = ex_revision, RenterFunds = 0, SecretKey = [], HostPublicKey = [8]\<rparr>\<rparr>"]
    by (simp add: ex_update_absent_header_def ex_env_def ex_Unmarshal_updateSetHeader_def)
  have journal: "fst (applyRecoveredUpdates ex_journal_env Map.empty [ex_update_root]) =
                   Some (ErrorsNew ''no such contract'')"
    by (simp add: applyRecoveredUpdate_def ex_update_root_def ex_journal_env_def ex_env_def
        ex_Unmarshal_updateSetRoot_def)
  have construction: "NewContractSet ex_journal_env ''renter/contracts'' = Inl (ErrorsNew ''no such contract'')"
    using replay_absent_fails_present_flushes
      [where env = ex_journal_env and dir = "''renter/contracts''" and updates = "[ex_update_root]"
         and wal = 0 and dirNames = "[''a.contract'']" and m = Map.empty
         and err = "ErrorsNew ''no such contract''"] journal
    by (simp add: load_contracts_skips_all) (simp add: ex_journal_env_def ex_env_def)
  have step1: "applyRecoveredUpdates ex_env ?m [ex_update_header, ex_update_root] =
                 applyRecoveredUpdates ex_env (?m([7] \<mapsto> ?c1\<lparr>sc_f := ?f1\<rparr>)) [ex_update_root]"
    using replay_absent_fails_present_flushes
      [where u = ex_update_header and env = ex_env and m = ?m and h = ?h and c = ex_contract
         and c' = ?c1 and err' = None and f' = ?f1 and rest = "[ex_update_root]"]
    by (simp add: ex_update_header_def ex_env_def ex_Unmarshal_updateSetHeader_def
        ex_applySetHeader_def ex_file_Sync_def ex_contract_def)
  have step2: "applyRecoveredUpdates ex_env (?m([7] \<mapsto> ?c1\<lparr>sc_f := ?f1\<rparr>)) [ex_update_root] =
                 applyRecoveredUpdates ex_env [[7] \<mapsto> ?c2\<lparr>sc_f := ?f2\<rparr>] []"
    using replay_absent_fails_present_flushes
      [where u = ex_update_root and env = ex_env and m = "?m([7] \<mapsto> ?c1\<lparr>sc_f := ?f1\<rparr>)" and r = ?r
         and c = "?c1\<lparr>sc_f := ?f1\<rparr>" and c' = ?c2 and err' = None and f' = ?f2 and rest = "[]"]
    by (simp add: ex_update_root_def ex_env_def ex_Unmarshal_updateSetRoot_def
        ex_applySetRoot_def ex_file_Sync_def ex_contract_def numeral_2_eq_2)
  show ?thesis
    using absent absent_header construction step1 step2 by (simp add: ex_contract_def)
qed

lemma applyRecoveredUpdate_unknown:
  assumes "Name u \<noteq> updateNameSetHeader env" and "Name u \<noteq> updateNameSetRoot env"
  shows "applyRecoveredUpdate env m u = (None, m)"
  using assms by (simp add: applyRecoveredUpdate_def)

lemma replay_skips_unknown:
  assumes "Name u \<noteq> updateNameSetHeader env" and "Name u \<noteq> updateNameSetRoot env"
  shows "applyRecoveredUpdates env m (before @ u # rest) = applyRecoveredUpdates env m (before @ rest)"
proof (induction before arbitrary: m)
  case Nil
  then show ?case by (simp add: applyRecoveredUpdate_unknown [OF assms])
next
  case (Cons x before)
  then show ?case by (simp split: prod.split option.split)
qed


text \<open>
  C10. A record whose name is neither of the two changes no contract and raises no
  error, and the replay of a sequence with such a record anywhere in it is the
  replay of the sequence without it.
\<close>

theorem replay_skips_unknown_records:
  assumes "Name u \<noteq> updateNameSetHeader env" and "Name u \<noteq> updateNameSetRoot env"
  shows "applyRecoveredUpdate env m u = (None, m) \<and>
         applyRecoveredUpdates env m (before @ u # rest) = applyRecoveredUpdates env m (before @ rest)"
  using applyRecoveredUpdate_unknown [OF assms] replay_skips_unknown [OF assms] by simp

theorem replay_skips_unknown_witness:
  "applyRecoveredUpdate ex_env [[7] \<mapsto> ex_contract] ex_update_unknown = (None, [[7] \<mapsto> ex_contract]) \<and>
   applyRecoveredUpdates ex_env [[7] \<mapsto> ex_contract] [ex_update_header, ex_update_unknown, ex_update_root] =
     applyRecoveredUpdates ex_env [[7] \<mapsto> ex_contract] [ex_update_header, ex_update_root]"
  using replay_skips_unknown_records
    [where u = ex_update_unknown and env = ex_env and m = "[[7] \<mapsto> ex_contract]"
       and before = "[ex_update_header]" and rest = "[ex_update_root]"]
  by (simp add: ex_update_unknown_def ex_env_def)

end
